theory Spec2Isabelle
  imports Complex_Main "HOL-Library.Log_Nat"
begin

section \<open>Numbers\<close>

text \<open>
  The program is JavaScript: its numbers are IEEE 754 doubles, and \<open>*\<close> and \<open>+\<close> round the
  exact result to the nearest double, ties to the even mantissa. Doubles are modelled by
  their values in \<open>rat\<close>, and the rounding is written out: \<open>toDouble\<close> takes a rational to the
  nearest number \<open>m * 2^k\<close> with a mantissa \<open>m\<close> of 53 bits. A decimal literal of the source
  such as \<open>0.05\<close> is the double \<open>toDouble 0.05\<close>. The exponent range is not modelled (no overflow
  to \<open>Infinity\<close>, no subnormal numbers); the numbers of a battle are far from both ends.

  Every stat of a character is a whole number (the constructor defaults are whole, and
  every update goes through \<open>Math.floor\<close> or adds whole numbers). Whole numbers below \<open>2^53\<close>
  are doubles, and their sums and differences are exact, so stats are \<open>int\<close>.
\<close>

text \<open>For \<open>x > 0\<close>, the exponent \<open>e\<close> with \<open>2^e \<le> x < 2^(e+1)\<close>.\<close>

definition ilog2 :: "rat \<Rightarrow> int" where
  "ilog2 x =
     (let (p, q) = quotient_of x; k = bitlen p - bitlen q
      in if 2 powi k \<le> x then k else k - 1)"

text \<open>The nearest whole number, a tie going to the even one.\<close>

definition roundHalfEven :: "rat \<Rightarrow> int" where
  "roundHalfEven q =
     (let f = \<lfloor>q\<rfloor>; d = q - of_int f
      in if d < 1 / 2 then f else if 1 / 2 < d then f + 1 else if even f then f else f + 1)"

text \<open>The nearest double: the number is scaled so that its mantissa has 53 bits, and rounded.\<close>

definition toDouble :: "rat \<Rightarrow> rat" where
  "toDouble x =
     (if x = 0 then 0
      else let a = \<bar>x\<bar>; u = 2 powi (ilog2 a - 52); r = of_int (roundHalfEven (a / u)) * u
           in if x < 0 then - r else r)"

text \<open>\<open>x * y\<close> and \<open>x + y\<close> of the program, on doubles.\<close>

definition jsMul :: "rat \<Rightarrow> rat \<Rightarrow> rat" where
  "jsMul x y = toDouble (x * y)"

definition jsAdd :: "rat \<Rightarrow> rat \<Rightarrow> rat" where
  "jsAdd x y = toDouble (x + y)"

section \<open>Boss damage cap (BattleManager.figureOutHowMuchDamageTheBossDoes)\<close>

definition figureOutHowMuchDamageTheBossDoes :: "int \<Rightarrow> int \<Rightarrow> int \<Rightarrow> int" where
  "figureOutHowMuchDamageTheBossDoes bossNormalDamage heroLevel heroMaxHP =
     (let levelsAboveOne = max 0 (heroLevel - 1);
          damageMultiplier = jsAdd 1 (jsMul (of_int levelsAboveOne) (toDouble 0.05));
          boostedDamage = jsMul (of_int bossNormalDamage) damageMultiplier;
          maxAllowedDamage = jsMul (of_int heroMaxHP) (toDouble 0.20);
          finalDamage = max 1 \<lfloor>min boostedDamage maxAllowedDamage\<rfloor>
      in finalDamage)"

section \<open>Attack resolver (AttackSystem)\<close>

text \<open>
  Modelled from the spec: \<open>AttackSystem.calculateDamage\<close>. The file \<open>AttackSystem.js\<close> is not
  among the sources; \<open>submitAnswer\<close> and \<open>enemyTurn\<close> call the function, and ALGORITHMS.md
  gives its formula in pseudo-code only, without the rounding. Section 4.1 of the spec:
  \<open>base = attacker.attack + (attacker.weaponDamageBonus or 0)\<close>; if not \<open>wasCorrect\<close>,
  \<open>base = base * 0.5\<close>; \<open>variance = uniformRandomInt[0,5]\<close>; \<open>raw = base + variance\<close>;
  \<open>defensePenalty = defender.defense * 0.5\<close>; \<open>result = max(1, floor(raw - defensePenalty))\<close>.
  The roll is an argument of the model; a missing bonus is \<open>None\<close>. Halving a double and
  adding halves of whole numbers are exact in double arithmetic, so no rounding is written.
\<close>

definition calculateDamage :: "int \<Rightarrow> int option \<Rightarrow> int \<Rightarrow> bool \<Rightarrow> int \<Rightarrow> int" where
  "calculateDamage attackerAttack weaponDamageBonus defenderDefense wasCorrect variance =
     (let base = of_int (attackerAttack + (case weaponDamageBonus of None \<Rightarrow> 0 | Some b \<Rightarrow> b));
          base = (if \<not> wasCorrect then base * 0.5 else base);
          raw = base + of_int variance;
          defensePenalty = of_int defenderDefense * (0.5 :: rat)
      in max 1 \<lfloor>raw - defensePenalty\<rfloor>)"

text \<open>The value under the floor: base damage (halved when wrong) plus roll minus half the defense.\<close>

definition rawDamage :: "int \<Rightarrow> int \<Rightarrow> int \<Rightarrow> bool \<Rightarrow> int \<Rightarrow> rat" where
  "rawDamage attackerAttack weaponBonus defenderDefense wasCorrect variance =
     (if wasCorrect then of_int (attackerAttack + weaponBonus)
      else of_int (attackerAttack + weaponBonus) * 0.5)
     + of_int variance - of_int defenderDefense * 0.5"

section \<open>Character stats (CharacterStats)\<close>

record Weapon =
  weaponName :: string
  damageBonus :: int
  description :: string

record CharacterStats =
  maxHP :: int
  currentHP :: int
  attack :: int
  defense :: int
  level :: int
  experience :: int
  experienceToNextLevel :: int
  gold :: int
  equippedWeapon :: Weapon

text \<open>
  \<open>takeDamage(damage)\<close>: the damage actually taken is at least 1; the method returns it and
  lowers \<open>currentHP\<close>, not below 0.
\<close>

definition takeDamage :: "rat \<Rightarrow> CharacterStats \<Rightarrow> int \<times> CharacterStats" where
  "takeDamage damage s =
     (let actualDamage = max 1 \<lfloor>damage\<rfloor>
      in (actualDamage, s\<lparr>currentHP := max 0 (currentHP s - actualDamage)\<rparr>))"

definition heal :: "int \<Rightarrow> CharacterStats \<Rightarrow> CharacterStats" where
  "heal amount s = s\<lparr>currentHP := min (maxHP s) (currentHP s + amount)\<rparr>"

definition isAlive :: "CharacterStats \<Rightarrow> bool" where
  "isAlive s \<longleftrightarrow> currentHP s > 0"

text \<open>
  Modelled from the spec: \<open>AttackSystem.applyDamage\<close>. \<open>submitAnswer\<close> and \<open>enemyTurn\<close> call it
  and read a boolean from it; its body is not among the sources. Section 4.1 of the spec:
  \<open>applyDamage(target, amount)\<close> subtracts \<open>max(0, amount)\<close> from \<open>currentHP\<close>, floors at 0 and
  returns \<open>currentHP > 0\<close>; it changes the target in place. The model returns the boolean
  and the target after the hit.
\<close>

definition AttackSystem_applyDamage :: "CharacterStats \<Rightarrow> int \<Rightarrow> bool \<times> CharacterStats" where
  "AttackSystem_applyDamage target amount =
     (let t = target\<lparr>currentHP := max 0 (currentHP target - max 0 amount)\<rparr>
      in (currentHP t > 0, t))"

text \<open>\<open>levelUp()\<close>, statement by statement; the products are double products.\<close>

definition levelUp :: "CharacterStats \<Rightarrow> CharacterStats" where
  "levelUp s =
     (let s1 = s\<lparr>level := level s + 1\<rparr>;
          oldMaxHP = maxHP s1;
          s2 = s1\<lparr>maxHP := \<lfloor>jsMul (of_int (maxHP s1)) (toDouble 1.2)\<rfloor>\<rparr>;
          s3 = s2\<lparr>currentHP := currentHP s2 + (maxHP s2 - oldMaxHP)\<rparr>;
          s4 = s3\<lparr>attack := \<lfloor>jsMul (of_int (attack s3)) (toDouble 1.15)\<rfloor>\<rparr>;
          s5 = s4\<lparr>defense := \<lfloor>jsMul (of_int (defense s4)) (toDouble 1.1)\<rfloor>\<rparr>
      in s5\<lparr>experienceToNextLevel :=
              \<lfloor>jsMul (of_int (experienceToNextLevel s5)) (toDouble 1.5)\<rfloor>\<rparr>)"

text \<open>
  The \<open>while\<close> loop of \<open>addExperience\<close>, with the flag \<open>leveledUp\<close> as its second argument.
  The loop need not end (it spins when \<open>experienceToNextLevel\<close> is 0), so it is a partial
  function: \<open>None\<close> is a call that never returns.
\<close>

partial_function (option) levelUpLoop :: "CharacterStats \<Rightarrow> bool \<Rightarrow> (bool \<times> CharacterStats) option" where
  "levelUpLoop s leveledUp =
     (if experience s \<ge> experienceToNextLevel s
      then levelUpLoop (levelUp (s\<lparr>experience := experience s - experienceToNextLevel s\<rparr>)) True
      else Some (leveledUp, s))"

declare levelUpLoop.simps [code]

text \<open>One round of the loop body: pay the threshold, then \<open>levelUp()\<close>.\<close>

definition levelUpOnce :: "CharacterStats \<Rightarrow> CharacterStats" where
  "levelUpOnce s = levelUp (s\<lparr>experience := experience s - experienceToNextLevel s\<rparr>)"

definition addExperience :: "int \<Rightarrow> CharacterStats \<Rightarrow> (bool \<times> CharacterStats) option" where
  "addExperience expAmount s = levelUpLoop (s\<lparr>experience := experience s + expAmount\<rparr>) False"

section \<open>Grade lookup (binarySearchGrade)\<close>

datatype error = TypeError

record GradeEntry =
  grade :: int
  units :: "string list"

text \<open>
  The recursive binary search with its two bounds. \<open>sortedGrades[mid]\<close> outside the array is
  \<open>undefined\<close>, and reading \<open>.grade\<close> from it throws: that is the \<open>Inl\<close> result. \<open>null\<close> is
  \<open>Inr None\<close>.
\<close>

function binarySearchGrade :: "GradeEntry list \<Rightarrow> int \<Rightarrow> int \<Rightarrow> int \<Rightarrow> error + GradeEntry option" where
  "binarySearchGrade sortedGrades targetGrade left right =
     (if left > right then Inr None
      else
        let mid = (left + right) div 2 in
        if mid < 0 \<or> mid \<ge> int (length sortedGrades) then Inl TypeError
        else
          let midGrade = sortedGrades ! nat mid in
          if grade midGrade = targetGrade then Inr (Some midGrade)
          else if grade midGrade < targetGrade
            then binarySearchGrade sortedGrades targetGrade (mid + 1) right
            else binarySearchGrade sortedGrades targetGrade left (mid - 1))"
  by pat_completeness auto
termination
  by (relation "measure (\<lambda>(sortedGrades, targetGrade, left, right). nat (right - left + 1))") auto

declare binarySearchGrade.simps [simp del]

text \<open>The call with the default arguments \<open>left = 0\<close>, \<open>right = sortedGrades.length - 1\<close>.\<close>

definition binarySearchGradeDefault :: "GradeEntry list \<Rightarrow> int \<Rightarrow> error + GradeEntry option" where
  "binarySearchGradeDefault sortedGrades targetGrade =
     binarySearchGrade sortedGrades targetGrade 0 (int (length sortedGrades) - 1)"

text \<open>The grades of the array grow strictly from each entry to the next.\<close>

definition strictlyIncreasing :: "GradeEntry list \<Rightarrow> bool" where
  "strictlyIncreasing gs \<longleftrightarrow> sorted_wrt (<) (map grade gs)"

section \<open>Battle manager (BattleManager)\<close>

datatype Difficulty = Easy | Medium | Hard | Nightmare

record DifficultySettings =
  bossHealthMultiplier :: rat
  bossAttackMultiplier :: rat
  playerDamageMultiplier :: rat
  experienceMultiplier :: rat
  wrongAnswerPenalty :: rat

fun GAME_DIFFICULTY_SETTINGS :: "Difficulty \<Rightarrow> DifficultySettings" where
  "GAME_DIFFICULTY_SETTINGS Easy =
     \<lparr>bossHealthMultiplier = toDouble 0.6, bossAttackMultiplier = toDouble 0.5,
      playerDamageMultiplier = toDouble 1.5, experienceMultiplier = toDouble 0.8,
      wrongAnswerPenalty = toDouble 0.3\<rparr>"
| "GAME_DIFFICULTY_SETTINGS Medium =
     \<lparr>bossHealthMultiplier = toDouble 1.0, bossAttackMultiplier = toDouble 1.0,
      playerDamageMultiplier = toDouble 1.0, experienceMultiplier = toDouble 1.2,
      wrongAnswerPenalty = toDouble 0.5\<rparr>"
| "GAME_DIFFICULTY_SETTINGS Hard =
     \<lparr>bossHealthMultiplier = toDouble 1.5, bossAttackMultiplier = toDouble 1.3,
      playerDamageMultiplier = toDouble 0.8, experienceMultiplier = toDouble 2.5,
      wrongAnswerPenalty = toDouble 0.3\<rparr>"
| "GAME_DIFFICULTY_SETTINGS Nightmare =
     \<lparr>bossHealthMultiplier = toDouble 2.0, bossAttackMultiplier = toDouble 1.8,
      playerDamageMultiplier = toDouble 0.6, experienceMultiplier = toDouble 5.0,
      wrongAnswerPenalty = toDouble 0.2\<rparr>"

datatype BattleState = Waiting | PlayerTurn | EnemyTurn | Victory | Defeat

text \<open>
  The lines of the battle log and the messages of a result are template strings; each is
  kept as its template with the values it interpolates.
\<close>

datatype Message =
    Appeared Difficulty string
  | CorrectHit int string
  | WrongHit int
  | VictoryLine int int
  | EnemyAttacks string int
  | DefeatLine
  | NotYourTurn

record MathUnit =
  unitName :: string
  topics :: "string list"
  unitDifficulty :: "int option"

record Enemy =
  name :: string
  enemyType :: string
  stats :: CharacterStats

text \<open>The object literal that \<open>Enemy.createForGrade\<close> passes to \<open>new Enemy\<close>.\<close>

record EnemyConfig =
  cfgName :: string
  cfgType :: string
  cfgMaxHP :: int
  cfgAttack :: int
  cfgDefense :: int
  cfgLevel :: int

text \<open>
  \<open>TurnSystem\<close> is not part of the sources; the manager only calls it and never reads it, so
  the model keeps the calls made to it, in order.
\<close>

datatype TurnCall = TurnReset | StartTurnPlayer | EndTurn

text \<open>
  The fields of the manager, followed by the two effects that leave the object: the stats
  handed to \<open>save()\<close>, one entry per call, and the number of \<open>enemyTurn\<close> callbacks given to
  \<open>setTimeout\<close>. The hero is identified with its stats. \<open>'p\<close> is the type of math problems.
\<close>

record 'p BattleManager =
  hero :: CharacterStats
  gradeLevel :: int
  unit :: "MathUnit option"
  difficulty :: Difficulty
  difficultySettings :: DifficultySettings
  enemy :: "Enemy option"
  currentMathProblem :: "'p option"
  battleState :: BattleState
  battleMessageHistory :: "Message list"
  turnSystem :: "TurnCall list"
  saved :: "CharacterStats list"
  scheduledEnemyTurns :: nat

definition newBattleManager :: "CharacterStats \<Rightarrow> int \<Rightarrow> MathUnit option \<Rightarrow> Difficulty \<Rightarrow> 'p BattleManager" where
  "newBattleManager theHero mathGradeLevel mathUnit difficultyLevel =
     \<lparr>hero = theHero, gradeLevel = mathGradeLevel, unit = mathUnit, difficulty = difficultyLevel,
      difficultySettings = GAME_DIFFICULTY_SETTINGS difficultyLevel,
      enemy = None, currentMathProblem = None, battleState = Waiting,
      battleMessageHistory = [], turnSystem = [], saved = [], scheduledEnemyTurns = 0\<rparr>"

text \<open>
  \<open>Enemy.createForGrade(grade, difficulty)\<close>. The constructor of \<open>Enemy\<close> is not part of the
  sources: it is the argument \<open>newEnemy\<close>. The grade is a whole number, so
  \<open>Math.floor(grade / 2)\<close> is \<open>g div 2\<close>.
\<close>

definition createForGrade :: "(EnemyConfig \<Rightarrow> Enemy) \<Rightarrow> int \<Rightarrow> int \<Rightarrow> Enemy" where
  "createForGrade newEnemy g d =
     (let baseHP = 50 + (g * 10) + (d * 20);
          baseAttack = 5 + (g * 1) + (d * 2);
          baseDefense = 2 + g div 2 + d;
          (type, nm) =
            (if g \<le> 3 then (''slime'', ''Math Slime'')
             else if g \<le> 6 then (''goblin'', ''Equation Goblin'')
             else if g \<le> 9 then (''skeleton'', ''Algebra Skeleton'')
             else (''dragon'', ''Calculus Dragon''))
      in newEnemy \<lparr>cfgName = nm, cfgType = type, cfgMaxHP = baseHP, cfgAttack = baseAttack,
                   cfgDefense = baseDefense, cfgLevel = g\<rparr>)"

text \<open>
  \<open>startBattle()\<close>. \<open>this.unit?.difficulty || Math.ceil(this.grade / 2)\<close> takes the second
  value when the unit is missing or its difficulty is missing or 0. \<open>createNewMathProblem()\<close>
  is not part of the sources: it stores the problem that the generator hands out, the
  argument \<open>newProblem\<close>. The method has no guard on the battle state. Halving a whole
  grade is exact in double arithmetic.
\<close>

definition startBattle :: "(EnemyConfig \<Rightarrow> Enemy) \<Rightarrow> 'p \<Rightarrow> 'p BattleManager \<Rightarrow> 'p BattleManager" where
  "startBattle newEnemy newProblem m =
     (let fallback = \<lceil>of_int (gradeLevel m) / (2 :: rat)\<rceil>;
          startingDifficulty =
            (case unit m of
               None \<Rightarrow> fallback
             | Some u \<Rightarrow> (case unitDifficulty u of
                            None \<Rightarrow> fallback
                          | Some d \<Rightarrow> if d = 0 then fallback else d));
          enemyDifficultyLevel = startingDifficulty;
          enemyDifficultyLevel =
            (if difficulty m = Hard then min 5 (startingDifficulty + 1) else enemyDifficultyLevel);
          enemyDifficultyLevel =
            (if difficulty m = Nightmare then min 5 (startingDifficulty + 2) else enemyDifficultyLevel);
          e = createForGrade newEnemy (gradeLevel m) enemyDifficultyLevel;
          originalHealth = maxHP (stats e);
          newHealth = \<lfloor>jsMul (of_int originalHealth) (bossHealthMultiplier (difficultySettings m))\<rfloor>;
          e = e\<lparr>stats := (stats e)\<lparr>maxHP := newHealth, currentHP := newHealth\<rparr>\<rparr>
      in m\<lparr>enemy := Some e,
           turnSystem := turnSystem m @ [TurnReset, StartTurnPlayer],
           battleState := PlayerTurn,
           battleMessageHistory := [Appeared (difficulty m) (name e)],
           currentMathProblem := Some newProblem\<rparr>)"

text \<open>
  The object a call of \<open>submitAnswer\<close> returns. A key that the returned object literal does
  not have is \<open>None\<close>.
\<close>

record BattleResult =
  success :: bool
  message :: "Message option"
  correct :: "bool option"
  damage :: "int option"
  enemyHP :: "int option"
  victory :: "bool option"
  expGained :: "int option"
  goldGained :: "int option"
  leveledUp :: "bool option"

definition emptyResult :: BattleResult where
  "emptyResult =
     \<lparr>success = False, message = None, correct = None, damage = None, enemyHP = None,
      victory = None, expGained = None, goldGained = None, leveledUp = None\<rparr>"

text \<open>The object returned outside the player's turn: \<open>{ success: false, message: 'Not your turn!' }\<close>.\<close>

definition notYourTurn :: BattleResult where
  "notYourTurn = emptyResult\<lparr>success := False, message := Some NotYourTurn\<rparr>"

text \<open>
  How a call ends: it never returns (the level-up loop spins), it throws (the enemy is still
  \<open>null\<close>), or it returns.
\<close>

datatype 'a outcome = Hangs | Throws error | Returns 'a

text \<open>
  The damage of STEP 2 of \<open>submitAnswer\<close>. The call site passes \<open>{ attack: heroAttack }\<close>, an
  attacker without a weapon bonus.
\<close>

definition playerDamage :: "DifficultySettings \<Rightarrow> int \<Rightarrow> int \<Rightarrow> bool \<Rightarrow> int \<Rightarrow> int" where
  "playerDamage ds heroAttack enemyDefense isCorrect variance =
     (let dmg = calculateDamage heroAttack None enemyDefense isCorrect variance;
          dmg = \<lfloor>jsMul (of_int dmg) (playerDamageMultiplier ds)\<rfloor>
      in if \<not> isCorrect then max 1 \<lfloor>jsMul (of_int dmg) (wrongAnswerPenalty ds)\<rfloor> else dmg)"

text \<open>
  \<open>submitAnswer(playerAnswer)\<close>. Its collaborators are arguments: \<open>validateAnswer\<close> of the
  problem generator, \<open>AttackSystem.applyDamage\<close> (not part of the sources; it returns whether
  the target is alive, and the target after the hit) and the roll of the damage formula.
  Experience and gold are floors of the double product of a whole number and the multiplier.
\<close>

definition submitAnswer ::
  "('p option \<Rightarrow> string \<Rightarrow> bool) \<Rightarrow> (CharacterStats \<Rightarrow> int \<Rightarrow> bool \<times> CharacterStats) \<Rightarrow> int \<Rightarrow>
   string \<Rightarrow> 'p BattleManager \<Rightarrow> (BattleResult \<times> 'p BattleManager) outcome" where
  "submitAnswer validateAnswer applyDamage variance playerAnswer m =
     (if battleState m \<noteq> PlayerTurn
      then Returns (notYourTurn, m)
      else
        let isCorrect = validateAnswer (currentMathProblem m) playerAnswer in
        case enemy m of
          None \<Rightarrow> Throws TypeError
        | Some e \<Rightarrow>
            let heroAttack = attack (hero m);
                enemyDefense = defense (stats e);
                dmg = playerDamage (difficultySettings m) heroAttack enemyDefense isCorrect variance;
                (enemyAlive, st) = applyDamage (stats e) dmg;
                e = e\<lparr>stats := st\<rparr>;
                msg = (if isCorrect then CorrectHit dmg (name e) else WrongHit dmg);
                m = m\<lparr>enemy := Some e, battleMessageHistory := battleMessageHistory m @ [msg]\<rparr>
            in
            if \<not> enemyAlive then
              let m = m\<lparr>battleState := Victory\<rparr>;
                  baseExp = level (stats e) * 10;
                  expEarned = \<lfloor>jsMul (of_int baseExp) (experienceMultiplier (difficultySettings m))\<rfloor>
              in
              case addExperience expEarned (hero m) of
                None \<Rightarrow> Hangs
              | Some (lvlUp, h) \<Rightarrow>
                  let baseGold = level (stats e) * 15;
                      goldEarned = \<lfloor>jsMul (of_int baseGold) (experienceMultiplier (difficultySettings m))\<rfloor>;
                      h = h\<lparr>gold := gold h + goldEarned\<rparr>;
                      m = m\<lparr>hero := h, saved := saved m @ [h]\<rparr>;
                      m = m\<lparr>battleMessageHistory :=
                             battleMessageHistory m @ [VictoryLine expEarned goldEarned]\<rparr>
                  in Returns (emptyResult\<lparr>success := True, victory := Some True,
                                expGained := Some expEarned, goldGained := Some goldEarned,
                                leveledUp := Some lvlUp\<rparr>, m)
            else
              let m = m\<lparr>turnSystem := turnSystem m @ [EndTurn], battleState := EnemyTurn,
                         scheduledEnemyTurns := scheduledEnemyTurns m + 1\<rparr>
              in Returns (emptyResult\<lparr>success := True, correct := Some isCorrect, damage := Some dmg,
                            enemyHP := Some (currentHP (stats e)), message := Some msg\<rparr>, m))"

text \<open>\<open>enemyTurn()\<close>; it returns no value, so the outcome holds the manager only.\<close>

definition enemyTurn ::
  "(CharacterStats \<Rightarrow> int \<Rightarrow> bool \<times> CharacterStats) \<Rightarrow> int \<Rightarrow> 'p \<Rightarrow>
   'p BattleManager \<Rightarrow> 'p BattleManager outcome" where
  "enemyTurn applyDamage variance newProblem m =
     (if battleState m \<noteq> EnemyTurn then Returns m
      else
        case enemy m of
          None \<Rightarrow> Throws TypeError
        | Some e \<Rightarrow>
            let bossAttack = attack (stats e);
                heroDefense = defense (hero m);
                baseDamage = calculateDamage bossAttack None heroDefense True variance;
                finalDamage = figureOutHowMuchDamageTheBossDoes baseDamage (level (hero m)) (maxHP (hero m));
                (heroAlive, h) = applyDamage (hero m) finalDamage;
                m = m\<lparr>hero := h,
                       battleMessageHistory := battleMessageHistory m @ [EnemyAttacks (name e) finalDamage]\<rparr>
            in
            if \<not> heroAlive then
              Returns (m\<lparr>battleState := Defeat,
                         battleMessageHistory := battleMessageHistory m @ [DefeatLine]\<rparr>)
            else
              Returns (m\<lparr>turnSystem := turnSystem m @ [EndTurn], battleState := PlayerTurn,
                         currentMathProblem := Some newProblem\<rparr>))"

section \<open>Concrete inputs\<close>

text \<open>
  The collaborators that are not part of the sources are arguments of the model. To run it
  on concrete battles they are instantiated as follows. For \<open>applyDamage\<close> there are two
  instances: \<open>AttackSystem_applyDamage\<close> above, and one built from the two methods of
  \<open>CharacterStats\<close> that the sources do have, \<open>takeDamage\<close> then \<open>isAlive\<close>. They agree on
  every hit of at least 1.
\<close>

definition applyDamageByTakeDamage :: "CharacterStats \<Rightarrow> int \<Rightarrow> bool \<times> CharacterStats" where
  "applyDamageByTakeDamage target dmg =
     (let (actualDamage, t) = takeDamage (of_int dmg) target in (isAlive t, t))"

definition woodenSword :: Weapon where
  "woodenSword =
     \<lparr>weaponName = ''Wooden Sword'', damageBonus = 0, description = ''A basic training sword''\<rparr>"

text \<open>The stats that the constructor of \<open>CharacterStats\<close> builds from an empty config.\<close>

definition defaultStats :: CharacterStats where
  "defaultStats =
     \<lparr>maxHP = 400, currentHP = 400, attack = 10, defense = 5, level = 1, experience = 0,
      experienceToNextLevel = 100, gold = 0, equippedWeapon = woodenSword\<rparr>"

text \<open>A constructor for \<open>Enemy\<close>: it keeps name and type and fills the stats from the config.\<close>

definition plainEnemy :: "EnemyConfig \<Rightarrow> Enemy" where
  "plainEnemy cfg =
     \<lparr>name = cfgName cfg, enemyType = cfgType cfg,
      stats = defaultStats\<lparr>maxHP := cfgMaxHP cfg, currentHP := cfgMaxHP cfg, attack := cfgAttack cfg,
                defense := cfgDefense cfg, level := cfgLevel cfg\<rparr>\<rparr>"

text \<open>The enemy of grade 1 and difficulty 1, with \<open>hp\<close> health left.\<close>

definition slime :: "int \<Rightarrow> Enemy" where
  "slime hp =
     \<lparr>name = ''Math Slime'', enemyType = ''slime'',
      stats = defaultStats\<lparr>maxHP := 80, currentHP := hp, attack := 8, defense := 3, level := 1\<rparr>\<rparr>"

text \<open>A medium battle of the default hero against that enemy, in a given state.\<close>

definition sampleBattle :: "BattleState \<Rightarrow> int \<Rightarrow> nat BattleManager" where
  "sampleBattle st hp =
     \<lparr>hero = defaultStats, gradeLevel = 1, unit = None, difficulty = Medium,
      difficultySettings = GAME_DIFFICULTY_SETTINGS Medium,
      enemy = Some (slime hp), currentMathProblem = Some 0, battleState = st,
      battleMessageHistory = [Appeared Medium ''Math Slime''],
      turnSystem = [TurnReset, StartTurnPlayer], saved = [], scheduledEnemyTurns = 0\<rparr>"

text \<open>A validator: the right answer is the string \<open>4\<close>.\<close>

definition answerIsFour :: "nat option \<Rightarrow> string \<Rightarrow> bool" where
  "answerIsFour p a \<longleftrightarrow> a = ''4''"

text \<open>
  A hard battle: the hero has attack 20, the enemy defense 5.
\<close>

definition hardBattle :: "nat BattleManager" where
  "hardBattle =
     (sampleBattle PlayerTurn 80)
       \<lparr>hero := defaultStats\<lparr>attack := 20\<rparr>, difficulty := Hard,
        difficultySettings := GAME_DIFFICULTY_SETTINGS Hard,
        battleMessageHistory := [Appeared Hard ''Math Slime''],
        enemy := Some ((slime 80)\<lparr>stats := (stats (slime 80))\<lparr>defense := 5\<rparr>\<rparr>)\<rparr>"

text \<open>A medium battle about to be won by a hero 5 experience short of the next level.\<close>

definition lastHitBattle :: "nat BattleManager" where
  "lastHitBattle = (sampleBattle PlayerTurn 5)\<lparr>hero := defaultStats\<lparr>experience := 95\<rparr>\<rparr>"

text \<open>A curriculum of five grades.\<close>

definition sampleGrades :: "GradeEntry list" where
  "sampleGrades =
     [\<lparr>grade = 1, units = [''Counting'']\<rparr>, \<lparr>grade = 3, units = [''Multiplication'']\<rparr>,
      \<lparr>grade = 5, units = [''Fractions'']\<rparr>, \<lparr>grade = 8, units = [''Algebra'']\<rparr>,
      \<lparr>grade = 12, units = [''Calculus'']\<rparr>]"


section \<open>Properties\<close>

subsection \<open>Rounding to a double\<close>

lemma ilog2_bounds:
  assumes "0 < x"
  shows "2 powi (ilog2 x) \<le> x" and "x < 2 powi (ilog2 x + 1)"
proof -
  obtain p q where pq: "quotient_of x = (p, q)" by (cases "quotient_of x")
  then have q: "0 < q" by (rule quotient_of_denom_pos)
  have x: "x = of_int p / of_int q" using pq by (rule quotient_of_div)
  with assms q have p: "0 < p" by (simp add: zero_less_divide_iff)
  define k where "k = bitlen p - bitlen q"
  from bitlen_bounds [OF p]
  have pb: "(2::rat) ^ nat (bitlen p - 1) \<le> of_int p" "of_int p < (2::rat) ^ nat (bitlen p)"
    by (metis of_int_le_iff of_int_numeral of_int_power,
        metis of_int_less_iff of_int_numeral of_int_power)
  from bitlen_bounds [OF q]
  have qb: "(2::rat) ^ nat (bitlen q - 1) \<le> of_int q" "of_int q < (2::rat) ^ nat (bitlen q)"
    by (metis of_int_le_iff of_int_numeral of_int_power,
        metis of_int_less_iff of_int_numeral of_int_power)
  have bp: "1 \<le> bitlen p" "1 \<le> bitlen q"
    using p q bitlen_eq_zero_iff [of p] bitlen_eq_zero_iff [of q]
      bitlen_nonneg [of p] bitlen_nonneg [of q]
    by linarith+
  have pw: "(2::rat) ^ nat (bitlen p) = 2 powi (bitlen p)"
    "(2::rat) ^ nat (bitlen q) = 2 powi (bitlen q)"
    "(2::rat) ^ nat (bitlen p - 1) = 2 powi (bitlen p - 1)"
    "(2::rat) ^ nat (bitlen q - 1) = 2 powi (bitlen q - 1)"
    using bp by (simp_all add: power_int_def)
  have up: "x < 2 powi (k + 1)"
  proof -
    have "x < 2 powi (bitlen p) / 2 powi (bitlen q - 1)"
      unfolding x using pb(2) qb(1) q p unfolding pw
      by (intro frac_less) (simp_all add: less_imp_le)
    also have "\<dots> = 2 powi (k + 1)"
      by (simp add: k_def power_int_diff [symmetric] algebra_simps)
    finally show ?thesis .
  qed
  have lo: "2 powi (k - 1) \<le> x"
  proof -
    have "2 powi (bitlen p - 1) / 2 powi (bitlen q) \<le> x"
      unfolding x using pb(1) qb(2) q p unfolding pw
      by (intro frac_le) (simp_all add: less_imp_le)
    moreover have "2 powi (bitlen p - 1) / (2::rat) powi (bitlen q) = 2 powi (k - 1)"
      by (simp add: k_def power_int_diff [symmetric] algebra_simps)
    ultimately show ?thesis by simp
  qed
  have e: "ilog2 x = (if 2 powi k \<le> x then k else k - 1)"
    by (simp add: ilog2_def pq k_def Let_def)
  show "2 powi (ilog2 x) \<le> x" using lo by (simp add: e)
  show "x < 2 powi (ilog2 x + 1)" using up by (simp add: e not_le)
qed

lemma roundHalfEven_bounds: "\<lfloor>q\<rfloor> \<le> roundHalfEven q" "roundHalfEven q \<le> \<lceil>q\<rceil>"
proof -
  show "\<lfloor>q\<rfloor> \<le> roundHalfEven q" by (simp add: roundHalfEven_def Let_def)
  have c: "q \<noteq> of_int \<lfloor>q\<rfloor> \<Longrightarrow> \<lceil>q\<rceil> = \<lfloor>q\<rfloor> + 1"
    by (metis ceiling_altdef of_int_floor_cancel)
  have "q - of_int \<lfloor>q\<rfloor> \<ge> 1 / 2 \<Longrightarrow> q \<noteq> of_int \<lfloor>q\<rfloor>" by auto
  with c show "roundHalfEven q \<le> \<lceil>q\<rceil>"
    by (auto simp add: roundHalfEven_def Let_def not_less)
qed

lemma scaled_range:
  assumes "0 < x"
  shows "2 ^ 52 \<le> x / 2 powi (ilog2 x - 52)"
proof -
  have u: "(0::rat) < 2 powi (ilog2 x - 52)" by simp
  have a: "(2::rat) powi (ilog2 x) = 2 ^ 52 * 2 powi (ilog2 x - 52)"
    by (simp add: power_int_diff)
  from ilog2_bounds(1) [OF assms] show ?thesis
    unfolding a using u by (simp add: pos_le_divide_eq)
qed

lemma toDouble_pos:
  "0 < x \<Longrightarrow>
     toDouble x = of_int (roundHalfEven (x / 2 powi (ilog2 x - 52))) * 2 powi (ilog2 x - 52)"
  by (simp add: toDouble_def Let_def)

text \<open>
  Rounding never crosses a double: a number \<open>m * 2^k\<close> with a mantissa below \<open>2^53\<close> that is
  at most \<open>x\<close> is at most the double of \<open>x\<close>, and one that is at least \<open>x\<close> is at least the
  double of \<open>x\<close>.
\<close>

lemma toDouble_ge:
  assumes x: "0 < x" and r: "r = of_int m * 2 powi k" and m: "m < 2 ^ 53" and le: "r \<le> x"
  shows "r \<le> toDouble x"
proof -
  define e where "e = ilog2 x"
  define u :: rat where "u = 2 powi (e - 52)"
  define q where "q = x / u"
  have u: "0 < u" by (simp add: u_def)
  have q: "2 ^ 52 \<le> q" using scaled_range [OF x] by (simp add: q_def u_def e_def)
  have td: "toDouble x = of_int (roundHalfEven q) * u"
    using toDouble_pos [OF x] by (simp add: q_def u_def e_def)
  have fl: "(2::int) ^ 52 \<le> \<lfloor>q\<rfloor>" using q by (simp add: le_floor_iff)
  have "r / u \<le> of_int \<lfloor>q\<rfloor>"
  proof (cases "e - 52 \<le> k")
    case True
    have "(2::rat) powi k = 2 powi (k - (e - 52)) * u"
      by (simp add: u_def power_int_add [symmetric])
    also have "(2::rat) powi (k - (e - 52)) = of_int (2 ^ nat (k - (e - 52)))"
      using True by (simp add: power_int_def)
    finally have "r / u = of_int (m * 2 ^ nat (k - (e - 52)))"
      using u by (simp add: r)
    then obtain j :: int where j: "r / u = of_int j" ..
    have "r / u \<le> q" using le u by (simp add: q_def divide_right_mono)
    then have "j \<le> \<lfloor>q\<rfloor>" unfolding j by (simp only: le_floor_iff)
    then show ?thesis unfolding j by (simp only: of_int_le_iff)
  next
    case False
    then have k: "k \<le> e - 53" by simp
    have "r \<le> of_int (2 ^ 53) * 2 powi k"
      unfolding r using m by (intro mult_right_mono) simp_all
    also have "\<dots> \<le> 2 ^ 53 * 2 powi (e - 53)"
      using k by (simp add: power_int_increasing)
    also have "\<dots> = 2 ^ 52 * u"
      by (simp add: u_def power_int_diff)
    finally have "r / u \<le> 2 ^ 52" using u by (simp add: pos_divide_le_eq)
    also have "\<dots> \<le> of_int \<lfloor>q\<rfloor>"
      using fl by (metis of_int_le_iff of_int_numeral of_int_power)
    finally show ?thesis .
  qed
  also have "\<dots> \<le> of_int (roundHalfEven q)" using roundHalfEven_bounds(1) [of q] by simp
  finally have "r / u \<le> of_int (roundHalfEven q)" .
  then show ?thesis unfolding td using u by (simp add: pos_divide_le_eq)
qed

lemma toDouble_le:
  assumes x: "0 < x" and r: "r = of_int m * 2 powi k" and m: "m < 2 ^ 53" and le: "x \<le> r"
  shows "toDouble x \<le> r"
proof -
  define e where "e = ilog2 x"
  define u :: rat where "u = 2 powi (e - 52)"
  define q where "q = x / u"
  have u: "0 < u" by (simp add: u_def)
  have td: "toDouble x = of_int (roundHalfEven q) * u"
    using toDouble_pos [OF x] by (simp add: q_def u_def e_def)
  have xe: "2 powi e \<le> x" using ilog2_bounds(1) [OF x] by (simp add: e_def)
  have big: "e - 52 \<le> k"
  proof (rule ccontr)
    assume "\<not> e - 52 \<le> k"
    then have k: "k \<le> e - 53" by simp
    have "r < of_int (2 ^ 53) * 2 powi k"
      unfolding r using m by (intro mult_strict_right_mono) simp_all
    also have "\<dots> \<le> 2 ^ 53 * 2 powi (e - 53)"
      using k by (simp add: power_int_increasing)
    also have "\<dots> = 2 powi e" by (simp add: power_int_diff)
    finally show False using xe le by simp
  qed
  have "(2::rat) powi k = 2 powi (k - (e - 52)) * u"
    by (simp add: u_def power_int_add [symmetric])
  also have "(2::rat) powi (k - (e - 52)) = of_int (2 ^ nat (k - (e - 52)))"
    using big by (simp add: power_int_def)
  finally have "r / u = of_int (m * 2 ^ nat (k - (e - 52)))"
    using u by (simp add: r)
  then obtain j :: int where ru: "r / u = of_int j" ..
  have "q \<le> r / u" using le u by (simp add: q_def divide_right_mono)
  then have "\<lceil>q\<rceil> \<le> j" unfolding ru by (simp only: ceiling_le_iff)
  with roundHalfEven_bounds(2) [of q] have "roundHalfEven q \<le> j" by simp
  then have "of_int (roundHalfEven q) \<le> r / u" unfolding ru by (simp only: of_int_le_iff)
  then show ?thesis unfolding td using u by (simp add: pos_le_divide_eq)
qed

lemma double_one_fifth: "toDouble (1 / 5) = 3602879701896397 / 2 ^ 54"
  by code_simp

lemma double_three_halves: "toDouble (3 / 2) = 3 / 2"
  by code_simp

text \<open>
  Up to \<open>2^50\<close>, the double product with \<open>0.20\<close> floors to the exact fifth: the double \<open>0.20\<close>
  exceeds one fifth by \<open>1 / (5 * 2^54)\<close>, so the product lies between \<open>n\<close> and \<open>n + 7/8\<close> for
  \<open>n = hp div 5\<close>, both of which are doubles.
\<close>

lemma fifth_floor:
  assumes "0 \<le> hp" and "hp \<le> 2 ^ 50"
  shows "\<lfloor>jsMul (of_int hp) (toDouble 0.20)\<rfloor> = hp div 5"
proof (cases "hp = 0")
  case True
  then show ?thesis by (simp add: jsMul_def toDouble_def)
next
  case False
  with assms have pos: "0 < hp" by simp
  define n where "n = hp div 5"
  define x :: rat where "x = of_int hp * (3602879701896397 / 2 ^ 54)"
  have n1: "5 * n \<le> hp" and n2: "hp \<le> 5 * n + 4" by (simp_all add: n_def)
  have n3: "0 \<le> n" using pos by (simp add: n_def)
  have p50: "(2::int) ^ 50 = 1125899906842624" by simp
  have n4: "n < 2 ^ 50" using n1 assms(2) n3 unfolding p50 by linarith
  have hr: "(0::rat) < of_int hp" "of_int hp \<le> (2::rat) ^ 50"
    "5 * of_int n \<le> (of_int hp :: rat)" "(of_int hp :: rat) \<le> 5 * of_int n + 4"
    using pos assms(2) n1 n2
    by (simp,
        metis of_int_le_iff of_int_numeral of_int_power,
        metis of_int_le_iff of_int_numeral of_int_mult,
        metis of_int_le_iff of_int_numeral of_int_mult of_int_add)
  have xp: "0 < x" using hr(1) by (simp add: x_def)
  have lo: "of_int n \<le> x" using hr by (simp add: x_def)
  have hi: "x \<le> of_int (8 * n + 7) * 2 powi (- 3)" using hr by (simp add: x_def power_int_minus)
  have a: "of_int n \<le> toDouble x"
    by (rule toDouble_ge [OF xp _ _ lo, where m = n and k = 0]) (use n4 in simp_all)
  have b: "toDouble x \<le> of_int (8 * n + 7) * 2 powi (- 3)"
    by (rule toDouble_le [OF xp _ _ hi, where m = "8 * n + 7" and k = "- 3"]) (use n4 in simp_all)
  have "toDouble x < of_int n + 1" using b by (simp add: power_int_minus)
  with a have "\<lfloor>toDouble x\<rfloor> = n" by (simp add: floor_unique)
  then show ?thesis by (simp add: jsMul_def double_one_fifth x_def n_def)
qed

text \<open>The next level threshold of a positive threshold is positive.\<close>

lemma threshold_positive:
  assumes "0 < t"
  shows "0 < \<lfloor>jsMul (of_int t) (toDouble 1.5)\<rfloor>"
proof -
  define x :: rat where "x = of_int t * (3 / 2)"
  have t: "(1::rat) \<le> of_int t" using assms by simp
  have xp: "0 < x" and lo: "1 \<le> x" using t by (simp_all add: x_def)
  have "1 \<le> toDouble x"
    by (rule toDouble_ge [OF xp _ _ lo, where m = 1 and k = 0]) simp_all
  then have "1 \<le> \<lfloor>toDouble x\<rfloor>" by (simp add: le_floor_iff)
  then show ?thesis by (simp add: jsMul_def double_three_halves x_def)
qed

subsection \<open>Boss damage cap\<close>

lemma cap_formula:
  "figureOutHowMuchDamageTheBossDoes d lvl hp =
     max 1 \<lfloor>min (jsMul (of_int d) (jsAdd 1 (jsMul (of_int (max 0 (lvl - 1))) (toDouble 0.05))))
                (jsMul (of_int hp) (toDouble 0.20))\<rfloor>"
  by (simp add: figureOutHowMuchDamageTheBossDoes_def Let_def)

lemma cap_le_max:
  "figureOutHowMuchDamageTheBossDoes d lvl hp \<le> max 1 \<lfloor>jsMul (of_int hp) (toDouble 0.20)\<rfloor>"
  unfolding cap_formula by (intro max.mono order_refl floor_mono min.cobounded2)

lemma cap_le_fifth:
  assumes "0 \<le> hp" and "hp \<le> 2 ^ 50"
  shows "figureOutHowMuchDamageTheBossDoes d lvl hp \<le> max 1 (hp div 5)"
  using cap_le_max [of d lvl hp] fifth_floor [OF assms] by (simp only:)

lemma cap_examples:
  "figureOutHowMuchDamageTheBossDoes 100 5 400 = 80"
  "figureOutHowMuchDamageTheBossDoes 45 9 400 = 62"
  "figureOutHowMuchDamageTheBossDoes 100 4 1000 = 114"
  by code_simp+

text \<open>
  Claim C1, as the code has it, in the double arithmetic of the program. For every whole
  nominal damage, hero level and maximum health, the cap returns \<open>max(1, floor(min(nominal *
  (1 + max(0, level - 1) * 0.05), maxHP * 0.20)))\<close>, and the result never exceeds \<open>max(1,
  floor(maxHP * 0.20))\<close>. For a maximum health from 0 to \<open>2^50\<close> the double \<open>floor(maxHP * 0.20)\<close>
  is the exact fifth \<open>maxHP div 5\<close>; there the result never exceeds \<open>max(1, maxHP div 5)\<close>, nor
  \<open>maxHP div 5\<close> itself once \<open>maxHP\<close> is at least 5, nor the exact \<open>ceil(maxHP / 5)\<close> for a positive
  \<open>maxHP\<close>. A nominal 100 at level 5 against 400 health is capped at 80; a nominal 45 at level
  9 gives 62, and a nominal 100 at level 4 gives 114 (the double products fall just below
  63 and 115).
\<close>

theorem boss_damage_cap:
  "figureOutHowMuchDamageTheBossDoes d lvl hp =
     max 1 \<lfloor>min (jsMul (of_int d) (jsAdd 1 (jsMul (of_int (max 0 (lvl - 1))) (toDouble 0.05))))
                (jsMul (of_int hp) (toDouble 0.20))\<rfloor>
   \<and> figureOutHowMuchDamageTheBossDoes d lvl hp \<le> max 1 \<lfloor>jsMul (of_int hp) (toDouble 0.20)\<rfloor>
   \<and> (0 \<le> hp \<and> hp \<le> 2 ^ 50 \<longrightarrow>
        \<lfloor>jsMul (of_int hp) (toDouble 0.20)\<rfloor> = hp div 5
        \<and> figureOutHowMuchDamageTheBossDoes d lvl hp \<le> max 1 (hp div 5))
   \<and> (5 \<le> hp \<and> hp \<le> 2 ^ 50 \<longrightarrow> figureOutHowMuchDamageTheBossDoes d lvl hp \<le> hp div 5)
   \<and> (0 < hp \<and> hp \<le> 2 ^ 50 \<longrightarrow>
        figureOutHowMuchDamageTheBossDoes d lvl hp \<le> \<lceil>of_int hp / (5 :: rat)\<rceil>)
   \<and> figureOutHowMuchDamageTheBossDoes 100 5 400 = 80
   \<and> figureOutHowMuchDamageTheBossDoes 45 9 400 = 62
   \<and> figureOutHowMuchDamageTheBossDoes 100 4 1000 = 114"
proof (intro conjI impI)
  show "figureOutHowMuchDamageTheBossDoes d lvl hp =
     max 1 \<lfloor>min (jsMul (of_int d) (jsAdd 1 (jsMul (of_int (max 0 (lvl - 1))) (toDouble 0.05))))
                (jsMul (of_int hp) (toDouble 0.20))\<rfloor>"
    by (rule cap_formula)
  show "figureOutHowMuchDamageTheBossDoes d lvl hp \<le> max 1 \<lfloor>jsMul (of_int hp) (toDouble 0.20)\<rfloor>"
    by (rule cap_le_max)
next
  assume "0 \<le> hp \<and> hp \<le> 2 ^ 50"
  then show "\<lfloor>jsMul (of_int hp) (toDouble 0.20)\<rfloor> = hp div 5"
    and "figureOutHowMuchDamageTheBossDoes d lvl hp \<le> max 1 (hp div 5)"
    using fifth_floor [of hp] cap_le_fifth [of hp d lvl] by blast+
next
  assume h: "5 \<le> hp \<and> hp \<le> 2 ^ 50"
  then have "5 div 5 \<le> hp div 5" by (intro zdiv_mono1) simp_all
  then have "1 \<le> hp div 5" by simp
  moreover from h have "figureOutHowMuchDamageTheBossDoes d lvl hp \<le> max 1 (hp div 5)"
    using cap_le_fifth [of hp d lvl] by simp
  ultimately show "figureOutHowMuchDamageTheBossDoes d lvl hp \<le> hp div 5" by simp
next
  assume h: "0 < hp \<and> hp \<le> 2 ^ 50"
  then have c: "figureOutHowMuchDamageTheBossDoes d lvl hp \<le> max 1 (hp div 5)"
    using cap_le_fifth [of hp d lvl] by simp
  have "(0::rat) < of_int hp / 5" using h by simp
  then have one: "1 \<le> \<lceil>of_int hp / (5 :: rat)\<rceil>"
    by (simp add: less_ceiling_iff flip: add1_zle_eq)
  have "hp div 5 = \<lfloor>of_int hp / (5 :: rat)\<rfloor>"
    using floor_divide_of_int_eq [of hp 5, where ?'a = rat] by simp
  then have "hp div 5 \<le> \<lceil>of_int hp / (5 :: rat)\<rceil>" by (simp add: floor_le_ceiling)
  with one have "max 1 (hp div 5) \<le> \<lceil>of_int hp / (5 :: rat)\<rceil>" by (rule max.boundedI)
  with c show "figureOutHowMuchDamageTheBossDoes d lvl hp \<le> \<lceil>of_int hp / (5 :: rat)\<rceil>"
    by (rule order_trans)
next
  show "figureOutHowMuchDamageTheBossDoes 100 5 400 = 80"
    "figureOutHowMuchDamageTheBossDoes 45 9 400 = 62"
    "figureOutHowMuchDamageTheBossDoes 100 4 1000 = 114"
    by (rule cap_examples)+
qed

theorem boss_damage_cap_witness:
  "(5::int) \<le> 400 \<and> (400::int) \<le> 2 ^ 50
   \<and> \<lfloor>jsMul (of_int 400) (toDouble 0.20)\<rfloor> = 400 div 5
   \<and> figureOutHowMuchDamageTheBossDoes 45 9 400 = 62
   \<and> figureOutHowMuchDamageTheBossDoes 45 9 400 \<le> 400 div 5
   \<and> figureOutHowMuchDamageTheBossDoes 45 9 400 \<le> \<lceil>of_int 400 / (5 :: rat)\<rceil>"
proof -
  have h: "(5::int) \<le> 400" "(0::int) \<le> 400" "(0::int) < 400" "(400::int) \<le> 2 ^ 50" by simp_all
  from boss_damage_cap [of 45 9 400] h show ?thesis by blast
qed

text \<open>
  Claim C1 as stated fails: a hero of level 1 with 4 maximum health takes 1 damage from a
  nominal hit of 100, while \<open>floor(4 * 0.20)\<close> is 0.
\<close>

theorem boss_damage_cap_counterexample:
  "(1::int) \<le> 1 \<and> (0::int) < 4
   \<and> figureOutHowMuchDamageTheBossDoes 100 1 4 = 1
   \<and> \<lfloor>jsMul (of_int 4) (toDouble 0.20)\<rfloor> = 0
   \<and> \<not> figureOutHowMuchDamageTheBossDoes 100 1 4 \<le> \<lfloor>jsMul (of_int 4) (toDouble 0.20)\<rfloor>"
  by code_simp

subsection \<open>Damage formula\<close>

lemma damage_formula:
  "calculateDamage a (Some b) d c v = max 1 \<lfloor>rawDamage a b d c v\<rfloor>"
  "calculateDamage a None d c v = max 1 \<lfloor>rawDamage a 0 d c v\<rfloor>"
  by (simp_all add: calculateDamage_def rawDamage_def Let_def)

lemma damage_at_least_one: "1 \<le> calculateDamage a w d c v"
  by (simp add: calculateDamage_def Let_def)

lemma damage_scenarios:
  "calculateDamage 20 (Some 5) 10 True 3 = 23"
  "calculateDamage 20 (Some 5) 10 False 3 = 10"
  by code_simp+

text \<open>
  Claim C3. With \<open>raw = base + variance - defense * 0.5\<close>, where \<open>base = attack + bonus\<close> (a
  missing bonus counting 0) is halved when the answer was incorrect, \<open>calculateDamage\<close>
  returns \<open>max(1, floor(raw))\<close>: a whole number that is at least 1, for every attack, bonus,
  defense, correctness flag and roll. For attack 20, bonus 5, defense 10, a correct answer
  and roll 3 it is 23; with the same numbers and a wrong answer it is 10.
\<close>

theorem calculateDamage_value:
  "calculateDamage a (Some b) d c v = max 1 \<lfloor>rawDamage a b d c v\<rfloor>
   \<and> calculateDamage a None d c v = max 1 \<lfloor>rawDamage a 0 d c v\<rfloor>
   \<and> rawDamage a b d True v = of_int (a + b) + of_int v - of_int d * 0.5
   \<and> rawDamage a b d False v = of_int (a + b) * 0.5 + of_int v - of_int d * 0.5
   \<and> 1 \<le> calculateDamage a w d c v
   \<and> calculateDamage 20 (Some 5) 10 True 3 = 23
   \<and> calculateDamage 20 (Some 5) 10 False 3 = 10"
  using damage_formula(1) [of a b d c v] damage_formula(2) [of a d c v] damage_at_least_one [of a w d c v] damage_scenarios
  by (simp add: rawDamage_def)

subsection \<open>Applying damage\<close>

text \<open>
  Claim C2. \<open>applyDamage(target, amount)\<close> subtracts \<open>max(0, amount)\<close> from \<open>currentHP\<close>, floors the
  result at 0, touches nothing else and returns whether \<open>currentHP > 0\<close> afterwards. It never
  drives \<open>currentHP\<close> below 0. On a stat block with \<open>0 \<le> currentHP \<le> maxHP\<close> it never raises
  \<open>currentHP\<close>, so never above \<open>maxHP\<close>, and the amount 0 leaves the stat block as it was.
\<close>

theorem applyDamage_effect:
  "snd (AttackSystem_applyDamage target amount)
     = target\<lparr>currentHP := max 0 (currentHP target - max 0 amount)\<rparr>
   \<and> fst (AttackSystem_applyDamage target amount)
     = (0 < currentHP (snd (AttackSystem_applyDamage target amount)))
   \<and> 0 \<le> currentHP (snd (AttackSystem_applyDamage target amount))
   \<and> (0 \<le> currentHP target \<and> currentHP target \<le> maxHP target \<longrightarrow>
        currentHP (snd (AttackSystem_applyDamage target amount)) \<le> currentHP target
        \<and> currentHP (snd (AttackSystem_applyDamage target amount))
            \<le> maxHP (snd (AttackSystem_applyDamage target amount))
        \<and> snd (AttackSystem_applyDamage target 0) = target
        \<and> fst (AttackSystem_applyDamage target 0) = (0 < currentHP target))"
  by (auto simp add: AttackSystem_applyDamage_def Let_def)

theorem applyDamage_effect_witness:
  "0 \<le> currentHP defaultStats \<and> currentHP defaultStats \<le> maxHP defaultStats
   \<and> AttackSystem_applyDamage defaultStats 23 = (True, defaultStats\<lparr>currentHP := 377\<rparr>)
   \<and> AttackSystem_applyDamage defaultStats 0 = (True, defaultStats)
   \<and> AttackSystem_applyDamage defaultStats 1000 = (False, defaultStats\<lparr>currentHP := 0\<rparr>)
   \<and> AttackSystem_applyDamage defaultStats (- 7) = (True, defaultStats)"
proof -
  have h: "0 \<le> currentHP defaultStats \<and> currentHP defaultStats \<le> maxHP defaultStats"
    by (simp add: defaultStats_def)
  have v: "currentHP defaultStats = 400" by (simp add: defaultStats_def)
  from applyDamage_effect [of defaultStats 23] applyDamage_effect [of defaultStats 0]
    applyDamage_effect [of defaultStats 1000] applyDamage_effect [of defaultStats "- 7"] h v
  show ?thesis by (simp add: prod_eq_iff)
qed

subsection \<open>Experience and levels\<close>

lemma levelUp_fields:
  "level (levelUp s) = level s + 1"
  "maxHP (levelUp s) = \<lfloor>jsMul (of_int (maxHP s)) (toDouble 1.2)\<rfloor>"
  "currentHP (levelUp s) = currentHP s + (maxHP (levelUp s) - maxHP s)"
  "attack (levelUp s) = \<lfloor>jsMul (of_int (attack s)) (toDouble 1.15)\<rfloor>"
  "defense (levelUp s) = \<lfloor>jsMul (of_int (defense s)) (toDouble 1.1)\<rfloor>"
  "experienceToNextLevel (levelUp s) = \<lfloor>jsMul (of_int (experienceToNextLevel s)) (toDouble 1.5)\<rfloor>"
  "experience (levelUp s) = experience s"
  "gold (levelUp s) = gold s"
  by (simp_all add: levelUp_def Let_def)

lemma levelUpOnce_fields:
  "level (levelUpOnce s) = level s + 1"
  "experience (levelUpOnce s) = experience s - experienceToNextLevel s"
  "experienceToNextLevel (levelUpOnce s) = \<lfloor>jsMul (of_int (experienceToNextLevel s)) (toDouble 1.5)\<rfloor>"
  "gold (levelUpOnce s) = gold s"
  by (simp_all add: levelUpOnce_def levelUp_fields)

lemma levelUpOnce_threshold:
  "0 < experienceToNextLevel s \<Longrightarrow> 0 < experienceToNextLevel (levelUpOnce s)"
  unfolding levelUpOnce_fields by (rule threshold_positive)

lemma loop_step:
  "experienceToNextLevel s \<le> experience s \<Longrightarrow> levelUpLoop s b = levelUpLoop (levelUpOnce s) True"
  by (subst levelUpLoop.simps) (simp add: levelUpOnce_def)

lemma loop_exit: "experience s < experienceToNextLevel s \<Longrightarrow> levelUpLoop s b = Some (b, s)"
  by (subst levelUpLoop.simps) simp

text \<open>
  The loop returns whenever the threshold is positive: each round lowers the experience by
  at least 1 and keeps the threshold positive. The proof is by induction on the experience.
\<close>

lemma loop_runs:
  "0 < experienceToNextLevel s \<Longrightarrow>
   \<exists>n. levelUpLoop s b = Some (b \<or> 0 < n, (levelUpOnce ^^ n) s)
     \<and> (\<forall>k<n. experienceToNextLevel ((levelUpOnce ^^ k) s) \<le> experience ((levelUpOnce ^^ k) s))
     \<and> experience ((levelUpOnce ^^ n) s) < experienceToNextLevel ((levelUpOnce ^^ n) s)"
proof (induction "nat (experience s)" arbitrary: s b rule: less_induct)
  case less
  show ?case
  proof (cases "experience s < experienceToNextLevel s")
    case True
    then have "levelUpLoop s b = Some (b \<or> 0 < (0::nat), (levelUpOnce ^^ 0) s)"
      by (simp add: loop_exit)
    with True show ?thesis by (intro exI [of _ 0]) simp
  next
    case False
    then have ge: "experienceToNextLevel s \<le> experience s" by simp
    let ?t = "levelUpOnce s"
    have pos: "0 < experienceToNextLevel ?t"
      using levelUpOnce_threshold [OF less.prems] .
    have "nat (experience ?t) < nat (experience s)"
      using ge less.prems by (simp add: levelUpOnce_fields)
    from less.hyps [OF this pos, of True]
    obtain n where n: "levelUpLoop ?t True = Some (True \<or> 0 < n, (levelUpOnce ^^ n) ?t)"
      "\<forall>k<n. experienceToNextLevel ((levelUpOnce ^^ k) ?t) \<le> experience ((levelUpOnce ^^ k) ?t)"
      "experience ((levelUpOnce ^^ n) ?t) < experienceToNextLevel ((levelUpOnce ^^ n) ?t)"
      by blast
    have a: "levelUpLoop s b = Some (b \<or> 0 < Suc n, (levelUpOnce ^^ Suc n) s)"
      using n(1) loop_step [OF ge, of b] by (simp add: funpow_swap1)
    have c: "experience ((levelUpOnce ^^ Suc n) s) < experienceToNextLevel ((levelUpOnce ^^ Suc n) s)"
      using n(3) by (simp add: funpow_swap1)
    have d: "\<forall>k<Suc n. experienceToNextLevel ((levelUpOnce ^^ k) s) \<le> experience ((levelUpOnce ^^ k) s)"
    proof (intro allI impI)
      fix k assume "k < Suc n"
      show "experienceToNextLevel ((levelUpOnce ^^ k) s) \<le> experience ((levelUpOnce ^^ k) s)"
      proof (cases k)
        case 0
        then show ?thesis using ge by simp
      next
        case (Suc j)
        with \<open>k < Suc n\<close> have "j < n" by simp
        with n(2) show ?thesis unfolding Suc by (simp add: funpow_swap1)
      qed
    qed
    from a c d show ?thesis by blast
  qed
qed

lemma level_funpow: "level ((levelUpOnce ^^ n) s) = level s + int n"
  by (induction n) (simp_all add: levelUpOnce_fields)

lemma gold_funpow: "gold ((levelUpOnce ^^ n) s) = gold s"
  by (induction n) (simp_all add: levelUpOnce_fields)

text \<open>
  What a call of \<open>addExperience\<close> does to a stat block with a positive threshold: it returns,
  after some number \<open>n\<close> of rounds on the stat block with the award added.
\<close>

lemma addExperience_runs:
  assumes "0 < experienceToNextLevel s"
  shows "\<exists>n. addExperience e s = Some (0 < n, (levelUpOnce ^^ n) (s\<lparr>experience := experience s + e\<rparr>))
           \<and> (\<forall>k<n. experienceToNextLevel ((levelUpOnce ^^ k) (s\<lparr>experience := experience s + e\<rparr>))
                     \<le> experience ((levelUpOnce ^^ k) (s\<lparr>experience := experience s + e\<rparr>)))
           \<and> experience ((levelUpOnce ^^ n) (s\<lparr>experience := experience s + e\<rparr>))
               < experienceToNextLevel ((levelUpOnce ^^ n) (s\<lparr>experience := experience s + e\<rparr>))
           \<and> level ((levelUpOnce ^^ n) (s\<lparr>experience := experience s + e\<rparr>)) = level s + int n
           \<and> (n = 0 \<longleftrightarrow> experience s + e < experienceToNextLevel s)"
proof -
  let ?s = "s\<lparr>experience := experience s + e\<rparr>"
  have pos: "0 < experienceToNextLevel ?s" using assms by simp
  from loop_runs [OF pos, of False]
  obtain n where n: "levelUpLoop ?s False = Some (False \<or> 0 < n, (levelUpOnce ^^ n) ?s)"
    "\<forall>k<n. experienceToNextLevel ((levelUpOnce ^^ k) ?s) \<le> experience ((levelUpOnce ^^ k) ?s)"
    "experience ((levelUpOnce ^^ n) ?s) < experienceToNextLevel ((levelUpOnce ^^ n) ?s)"
    by blast
  have a: "addExperience e s = Some (0 < n, (levelUpOnce ^^ n) ?s)"
    using n(1) by (simp add: addExperience_def)
  have l: "level ((levelUpOnce ^^ n) ?s) = level s + int n"
    by (simp add: level_funpow)
  have z: "n = 0 \<longleftrightarrow> experience s + e < experienceToNextLevel s"
  proof
    assume "n = 0"
    with n(3) show "experience s + e < experienceToNextLevel s" by simp
  next
    assume lt: "experience s + e < experienceToNextLevel s"
    show "n = 0"
    proof (rule ccontr)
      assume "n \<noteq> 0"
      then have "0 < n" by simp
      with n(2) have "experienceToNextLevel ((levelUpOnce ^^ 0) ?s) \<le> experience ((levelUpOnce ^^ 0) ?s)"
        by blast
      with lt show False by simp
    qed
  qed
  from a n(2) n(3) l z show ?thesis by blast
qed

lemma addExperience_returns:
  assumes "0 < experienceToNextLevel s"
  shows "\<exists>lu h. addExperience e s = Some (lu, h)"
  using addExperience_runs [OF assms, of e] by blast

lemma scenario_D:
  "addExperience 150 defaultStats =
     Some (True, defaultStats\<lparr>level := 2, experience := 50, maxHP := 480, currentHP := 480,
                   attack := 11, defense := 5, experienceToNextLevel := 150\<rparr>)"
  by code_simp

lemma attack_hundred: "attack (levelUp (defaultStats\<lparr>attack := 100\<rparr>)) = 114"
  by code_simp

text \<open>
  Claim C9, as the code has it. For a stat block with a positive \<open>experienceToNextLevel\<close>,
  \<open>addExperience(exp)\<close> returns: it adds \<open>exp\<close> to the experience and then runs some number
  \<open>n\<close> of rounds, each paying the current threshold and applying \<open>levelUp\<close>; every round starts
  with the experience at or above the threshold, and afterwards the experience is below the
  threshold. It returns whether \<open>n > 0\<close>. The level grows by \<open>n\<close>, so it never decreases; no
  round runs exactly when the experience with \<open>exp\<close> added is below the threshold, so \<open>exp = 0\<close>
  leaves the level alone when the experience was below the threshold before the call.
  \<open>levelUp\<close> adds 1 to the level, sets \<open>maxHP\<close> to \<open>floor(maxHP * 1.2)\<close> and heals the health
  gained, sets attack to \<open>floor(attack * 1.15)\<close>, defense to \<open>floor(defense * 1.1)\<close> and the
  threshold to \<open>floor(threshold * 1.5)\<close>, each product being the double product of the
  program: an attack of 100 becomes 114, since the double \<open>100 * 1.15\<close> lies just below 115.
  The hero of level 1 with 400 health, attack 10, defense 5 and threshold 100, awarded 150,
  ends at level 2 with 50 experience, 480 health, attack 11, defense 5 and threshold 150, and
  the call returns true.
\<close>

theorem addExperience_levels:
  assumes "0 < experienceToNextLevel s"
  shows "(\<exists>n. addExperience e s = Some (0 < n, (levelUpOnce ^^ n) (s\<lparr>experience := experience s + e\<rparr>))
           \<and> (\<forall>k<n. experienceToNextLevel ((levelUpOnce ^^ k) (s\<lparr>experience := experience s + e\<rparr>))
                     \<le> experience ((levelUpOnce ^^ k) (s\<lparr>experience := experience s + e\<rparr>)))
           \<and> experience ((levelUpOnce ^^ n) (s\<lparr>experience := experience s + e\<rparr>))
               < experienceToNextLevel ((levelUpOnce ^^ n) (s\<lparr>experience := experience s + e\<rparr>))
           \<and> level ((levelUpOnce ^^ n) (s\<lparr>experience := experience s + e\<rparr>)) = level s + int n
           \<and> (n = 0 \<longleftrightarrow> experience s + e < experienceToNextLevel s)
           \<and> (e = 0 \<and> experience s < experienceToNextLevel s \<longrightarrow> n = 0))
     \<and> levelUpOnce t = levelUp (t\<lparr>experience := experience t - experienceToNextLevel t\<rparr>)
     \<and> level (levelUp t) = level t + 1
     \<and> maxHP (levelUp t) = \<lfloor>jsMul (of_int (maxHP t)) (toDouble 1.2)\<rfloor>
     \<and> currentHP (levelUp t) = currentHP t + (maxHP (levelUp t) - maxHP t)
     \<and> attack (levelUp t) = \<lfloor>jsMul (of_int (attack t)) (toDouble 1.15)\<rfloor>
     \<and> defense (levelUp t) = \<lfloor>jsMul (of_int (defense t)) (toDouble 1.1)\<rfloor>
     \<and> experienceToNextLevel (levelUp t) = \<lfloor>jsMul (of_int (experienceToNextLevel t)) (toDouble 1.5)\<rfloor>
     \<and> attack (levelUp (defaultStats\<lparr>attack := 100\<rparr>)) = 114
     \<and> addExperience 150 defaultStats =
         Some (True, defaultStats\<lparr>level := 2, experience := 50, maxHP := 480, currentHP := 480,
                       attack := 11, defense := 5, experienceToNextLevel := 150\<rparr>)"
proof -
  let ?s = "s\<lparr>experience := experience s + e\<rparr>"
  from addExperience_runs [OF assms, of e]
  obtain n where a: "addExperience e s = Some (0 < n, (levelUpOnce ^^ n) ?s)"
    and r: "\<forall>k<n. experienceToNextLevel ((levelUpOnce ^^ k) ?s) \<le> experience ((levelUpOnce ^^ k) ?s)"
    and b: "experience ((levelUpOnce ^^ n) ?s) < experienceToNextLevel ((levelUpOnce ^^ n) ?s)"
    and l: "level ((levelUpOnce ^^ n) ?s) = level s + int n"
    and z: "n = 0 \<longleftrightarrow> experience s + e < experienceToNextLevel s"
    by (elim exE conjE)
  have z0: "e = 0 \<and> experience s < experienceToNextLevel s \<longrightarrow> n = 0"
    using z by simp
  have first: "\<exists>n. addExperience e s = Some (0 < n, (levelUpOnce ^^ n) ?s)
           \<and> (\<forall>k<n. experienceToNextLevel ((levelUpOnce ^^ k) ?s) \<le> experience ((levelUpOnce ^^ k) ?s))
           \<and> experience ((levelUpOnce ^^ n) ?s) < experienceToNextLevel ((levelUpOnce ^^ n) ?s)
           \<and> level ((levelUpOnce ^^ n) ?s) = level s + int n
           \<and> (n = 0 \<longleftrightarrow> experience s + e < experienceToNextLevel s)
           \<and> (e = 0 \<and> experience s < experienceToNextLevel s \<longrightarrow> n = 0)"
    using a r b l z z0 by (intro exI [of _ n] conjI)
  show ?thesis
    apply (intro conjI)
             apply (rule first)
            apply (rule levelUpOnce_def)
           apply (rule levelUp_fields(1))
          apply (rule levelUp_fields(2))
         apply (rule levelUp_fields(3))
        apply (rule levelUp_fields(4))
       apply (rule levelUp_fields(5))
      apply (rule levelUp_fields(6))
     apply (rule attack_hundred)
    apply (rule scenario_D)
    done
qed

theorem addExperience_levels_witness:
  "0 < experienceToNextLevel defaultStats
   \<and> (\<exists>n. addExperience 150 defaultStats
              = Some (0 < n, (levelUpOnce ^^ n) (defaultStats\<lparr>experience := experience defaultStats + 150\<rparr>))
          \<and> level ((levelUpOnce ^^ n) (defaultStats\<lparr>experience := experience defaultStats + 150\<rparr>))
              = level defaultStats + int n
          \<and> n \<noteq> 0)
   \<and> level (levelUp defaultStats) = 2
   \<and> attack (levelUp (defaultStats\<lparr>attack := 100\<rparr>)) = 114"
proof -
  have h: "0 < experienceToNextLevel defaultStats" by (simp add: defaultStats_def)
  have big: "\<not> experience defaultStats + 150 < experienceToNextLevel defaultStats"
    by (simp add: defaultStats_def)
  have two: "level defaultStats + 1 = 2" by (simp add: defaultStats_def)
  note t = addExperience_levels [OF h, of 150 defaultStats]
  from t [THEN conjunct1] obtain n where
    a: "addExperience 150 defaultStats
          = Some (0 < n, (levelUpOnce ^^ n) (defaultStats\<lparr>experience := experience defaultStats + 150\<rparr>))"
    and l: "level ((levelUpOnce ^^ n) (defaultStats\<lparr>experience := experience defaultStats + 150\<rparr>))
              = level defaultStats + int n"
    and z: "n = 0 \<longleftrightarrow> experience defaultStats + 150 < experienceToNextLevel defaultStats"
    by (elim exE conjE)
  from z big have nz: "n \<noteq> 0" by blast
  have lv: "level (levelUp defaultStats) = level defaultStats + 1"
    using t [THEN conjunct2, THEN conjunct2, THEN conjunct1] .
  have at: "attack (levelUp (defaultStats\<lparr>attack := 100\<rparr>)) = 114"
    using t by (elim conjE)
  from a l nz have "\<exists>n. addExperience 150 defaultStats
              = Some (0 < n, (levelUpOnce ^^ n) (defaultStats\<lparr>experience := experience defaultStats + 150\<rparr>))
          \<and> level ((levelUpOnce ^^ n) (defaultStats\<lparr>experience := experience defaultStats + 150\<rparr>))
              = level defaultStats + int n
          \<and> n \<noteq> 0" by (intro exI [of _ n] conjI)
  moreover from lv two have "level (levelUp defaultStats) = 2" by (rule trans)
  ultimately show ?thesis using h at by (intro conjI)
qed

text \<open>
  Claim C9 as stated fails where it says that \<open>exp = 0\<close> never changes the level: a stat block
  of level 1 whose experience 100 already equals its threshold 100 is at level 2 after
  \<open>addExperience(0)\<close>.
\<close>

theorem addExperience_zero_counterexample:
  "(0::int) \<le> 0
   \<and> 0 \<le> experience (defaultStats\<lparr>experience := 100\<rparr>)
   \<and> 0 < experienceToNextLevel (defaultStats\<lparr>experience := 100\<rparr>)
   \<and> level (defaultStats\<lparr>experience := 100\<rparr>) = 1
   \<and> map_option (level \<circ> snd) (addExperience 0 (defaultStats\<lparr>experience := 100\<rparr>)) = Some 2
   \<and> map_option fst (addExperience 0 (defaultStats\<lparr>experience := 100\<rparr>)) = Some True"
  by code_simp

subsection \<open>Grade lookup\<close>

lemma strictly_nth:
  "strictlyIncreasing gs \<Longrightarrow> i < j \<Longrightarrow> j < length gs \<Longrightarrow> grade (gs ! i) < grade (gs ! j)"
  unfolding strictlyIncreasing_def
  by (drule sorted_wrt_nth_less [where i = i and j = j]) simp_all

text \<open>
  The invariant of the search: every entry left of the window has a smaller grade than the
  target, every entry right of it a larger one. The proof follows the recursion of the
  function.
\<close>

lemma search_window:
  assumes "strictlyIncreasing gs"
    and "0 \<le> left" and "right < int (length gs)"
    and "\<forall>i<length gs. int i < left \<longrightarrow> grade (gs ! i) < t"
    and "\<forall>i<length gs. right < int i \<longrightarrow> t < grade (gs ! i)"
  shows "(\<exists>i<length gs. grade (gs ! i) = t \<and> binarySearchGrade gs t left right = Inr (Some (gs ! i)))
       \<or> ((\<forall>i<length gs. grade (gs ! i) \<noteq> t) \<and> binarySearchGrade gs t left right = Inr None)"
  using assms
proof (induction gs t left right rule: binarySearchGrade.induct)
  case (1 gs t left right)
  show ?case
  proof (cases "left > right")
    case True
    have "\<forall>i<length gs. grade (gs ! i) \<noteq> t"
    proof (intro allI impI)
      fix i assume i: "i < length gs"
      from True have "int i < left \<or> right < int i" by linarith
      then show "grade (gs ! i) \<noteq> t"
        using "1.prems"(4,5) i by fastforce
    qed
    moreover have "binarySearchGrade gs t left right = Inr None"
      using True by (subst binarySearchGrade.simps) simp
    ultimately show ?thesis by blast
  next
    case False
    define mid where "mid = (left + right) div 2"
    have midb: "left \<le> mid" "mid \<le> right" using False by (simp_all add: mid_def)
    then have inr: "\<not> (mid < 0 \<or> int (length gs) \<le> mid)" using "1.prems"(2,3) by linarith
    have nm: "nat mid < length gs" "int (nat mid) = mid" using inr by linarith+
    show ?thesis
    proof (cases "grade (gs ! nat mid) = t")
      case True
      have "binarySearchGrade gs t left right = Inr (Some (gs ! nat mid))"
        using False inr True by (subst binarySearchGrade.simps) (simp add: mid_def Let_def)
      with True nm(1) show ?thesis by blast
    next
      case ne: False
      show ?thesis
      proof (cases "grade (gs ! nat mid) < t")
        case True
        have eq: "binarySearchGrade gs t left right = binarySearchGrade gs t (mid + 1) right"
          using False inr ne True by (subst binarySearchGrade.simps) (simp add: mid_def Let_def)
        have low: "\<forall>i<length gs. int i < mid + 1 \<longrightarrow> grade (gs ! i) < t"
        proof (intro allI impI)
          fix i assume i: "i < length gs" "int i < mid + 1"
          show "grade (gs ! i) < t"
          proof (cases "i = nat mid")
            case True then show ?thesis using \<open>grade (gs ! nat mid) < t\<close> by simp
          next
            case False
            with i nm have "i < nat mid" by linarith
            from strictly_nth [OF "1.prems"(1) this nm(1)] \<open>grade (gs ! nat mid) < t\<close>
            show ?thesis by simp
          qed
        qed
        have "0 \<le> mid + 1" using midb "1.prems"(2) by simp
        from "1.IH"(1) [OF False mid_def inr refl ne True "1.prems"(1) this "1.prems"(3) low "1.prems"(5)]
        show ?thesis unfolding eq .
      next
        case gt: False
        with ne have gt': "t < grade (gs ! nat mid)" by simp
        have eq: "binarySearchGrade gs t left right = binarySearchGrade gs t left (mid - 1)"
          using False inr ne gt by (subst binarySearchGrade.simps) (simp add: mid_def Let_def)
        have high: "\<forall>i<length gs. mid - 1 < int i \<longrightarrow> t < grade (gs ! i)"
        proof (intro allI impI)
          fix i assume i: "i < length gs" "mid - 1 < int i"
          show "t < grade (gs ! i)"
          proof (cases "i = nat mid")
            case True then show ?thesis using gt' by simp
          next
            case False
            with i nm have "nat mid < i" by linarith
            from strictly_nth [OF "1.prems"(1) this i(1)] gt'
            show ?thesis by simp
          qed
        qed
        have "mid - 1 < int (length gs)" using midb "1.prems"(3) by simp
        from "1.IH"(2) [OF False mid_def inr refl ne gt "1.prems"(1,2) this "1.prems"(4) high]
        show ?thesis unfolding eq .
      qed
    qed
  qed
qed

lemma strictly_unique:
  assumes "strictlyIncreasing gs" "i < length gs" "j < length gs" "grade (gs ! i) = grade (gs ! j)"
  shows "i = j"
proof (rule ccontr)
  assume "i \<noteq> j"
  then consider "i < j" | "j < i" by linarith
  then show False
  proof cases
    case 1
    from strictly_nth [OF assms(1) 1 assms(3)] assms(4) show False by simp
  next
    case 2
    from strictly_nth [OF assms(1) 2 assms(2)] assms(4) show False by simp
  qed
qed

lemma search_default:
  assumes "strictlyIncreasing gs"
  shows "(\<exists>i<length gs. grade (gs ! i) = t \<and> binarySearchGradeDefault gs t = Inr (Some (gs ! i)))
       \<or> ((\<forall>i<length gs. grade (gs ! i) \<noteq> t) \<and> binarySearchGradeDefault gs t = Inr None)"
  unfolding binarySearchGradeDefault_def
  by (rule search_window [OF assms]) simp_all

text \<open>
  Claim C10. \<open>binarySearchGrade\<close> is a total function of the model (its recursion is proved
  to end, the window shrinking at every call), so every call returns. On an array whose
  grades are strictly increasing, called with the default bounds, it returns the entry
  whose grade is the target whenever there is one, and \<open>null\<close> when there is none; it never
  reads outside the array.
\<close>

theorem binarySearchGrade_finds:
  assumes "strictlyIncreasing gs"
  shows "(\<forall>g \<in> set gs. grade g = t \<longrightarrow> binarySearchGradeDefault gs t = Inr (Some g))
       \<and> ((\<forall>g \<in> set gs. grade g \<noteq> t) \<longrightarrow> binarySearchGradeDefault gs t = Inr None)"
proof (intro conjI ballI impI)
  fix g assume g: "g \<in> set gs" "grade g = t"
  then obtain j where j: "j < length gs" "gs ! j = g" by (auto simp: in_set_conv_nth)
  from search_default [OF assms, of t] j g(2)
  obtain i where i: "i < length gs" "grade (gs ! i) = t"
      "binarySearchGradeDefault gs t = Inr (Some (gs ! i))"
    by blast
  have "i = j" using strictly_unique [OF assms i(1) j(1)] i(2) j(2) g(2) by simp
  with i(3) j(2) show "binarySearchGradeDefault gs t = Inr (Some g)" by simp
next
  assume none: "\<forall>g \<in> set gs. grade g \<noteq> t"
  have "\<forall>i<length gs. grade (gs ! i) \<noteq> t"
    using none nth_mem by blast
  with search_default [OF assms, of t]
  show "binarySearchGradeDefault gs t = Inr None" by blast
qed

theorem binarySearchGrade_finds_witness:
  "strictlyIncreasing sampleGrades
   \<and> binarySearchGradeDefault sampleGrades 8 = Inr (Some \<lparr>grade = 8, units = [''Algebra'']\<rparr>)
   \<and> binarySearchGradeDefault sampleGrades 4 = Inr None"
proof -
  have s: "strictlyIncreasing sampleGrades"
    by (simp add: strictlyIncreasing_def sampleGrades_def)
  have m: "\<lparr>grade = 8, units = [''Algebra'']\<rparr> \<in> set sampleGrades"
    by (simp add: sampleGrades_def)
  have n: "\<forall>g \<in> set sampleGrades. grade g \<noteq> 4"
    by (simp add: sampleGrades_def)
  from binarySearchGrade_finds [OF s, of 8] m
  have a: "binarySearchGradeDefault sampleGrades 8 = Inr (Some \<lparr>grade = 8, units = [''Algebra'']\<rparr>)"
    by fastforce
  from binarySearchGrade_finds [OF s, of 4] n
  have b: "binarySearchGradeDefault sampleGrades 4 = Inr None"
    by blast
  from s a b show ?thesis by blast
qed

subsection \<open>Battle manager: the two branches of a player turn\<close>

lemma wrong_damage:
  "playerDamage ds ha ed False v =
     max 1 \<lfloor>jsMul (of_int \<lfloor>jsMul (of_int (calculateDamage ha None ed False v)) (playerDamageMultiplier ds)\<rfloor>)
                    (wrongAnswerPenalty ds)\<rfloor>"
  by (simp add: playerDamage_def Let_def)

lemma right_damage:
  "playerDamage ds ha ed True v = \<lfloor>jsMul (of_int (calculateDamage ha None ed True v)) (playerDamageMultiplier ds)\<rfloor>"
  by (simp add: playerDamage_def Let_def)

lemma submitAnswer_victory:
  assumes "battleState m = PlayerTurn" and "enemy m = Some e"
    and "applyDamage (stats e) (playerDamage (difficultySettings m) (attack (hero m)) (defense (stats e))
           (validateAnswer (currentMathProblem m) a) v) = (False, st)"
    and "addExperience \<lfloor>jsMul (of_int (level st * 10)) (experienceMultiplier (difficultySettings m))\<rfloor> (hero m)
           = Some (lu, h)"
  shows "submitAnswer validateAnswer applyDamage v a m =
     Returns
       (emptyResult\<lparr>success := True, victory := Some True,
          expGained := Some \<lfloor>jsMul (of_int (level st * 10)) (experienceMultiplier (difficultySettings m))\<rfloor>,
          goldGained := Some \<lfloor>jsMul (of_int (level st * 15)) (experienceMultiplier (difficultySettings m))\<rfloor>,
          leveledUp := Some lu\<rparr>,
        m\<lparr>enemy := Some (e\<lparr>stats := st\<rparr>),
          battleMessageHistory := battleMessageHistory m @
            [if validateAnswer (currentMathProblem m) a
             then CorrectHit (playerDamage (difficultySettings m) (attack (hero m)) (defense (stats e)) True v) (name e)
             else WrongHit (playerDamage (difficultySettings m) (attack (hero m)) (defense (stats e)) False v),
             VictoryLine \<lfloor>jsMul (of_int (level st * 10)) (experienceMultiplier (difficultySettings m))\<rfloor>
                         \<lfloor>jsMul (of_int (level st * 15)) (experienceMultiplier (difficultySettings m))\<rfloor>],
          battleState := Victory,
          hero := h\<lparr>gold := gold h + \<lfloor>jsMul (of_int (level st * 15)) (experienceMultiplier (difficultySettings m))\<rfloor>\<rparr>,
          saved := saved m @ [h\<lparr>gold := gold h + \<lfloor>jsMul (of_int (level st * 15)) (experienceMultiplier (difficultySettings m))\<rfloor>\<rparr>]\<rparr>)"
  using assms by (simp add: submitAnswer_def Let_def)

lemma submitAnswer_continue:
  assumes "battleState m = PlayerTurn" and "enemy m = Some e"
    and "applyDamage (stats e) (playerDamage (difficultySettings m) (attack (hero m)) (defense (stats e))
           (validateAnswer (currentMathProblem m) a) v) = (True, st)"
  shows "submitAnswer validateAnswer applyDamage v a m =
     Returns
       (emptyResult\<lparr>success := True, correct := Some (validateAnswer (currentMathProblem m) a),
          damage := Some (playerDamage (difficultySettings m) (attack (hero m)) (defense (stats e))
                            (validateAnswer (currentMathProblem m) a) v),
          enemyHP := Some (currentHP st),
          message := Some (if validateAnswer (currentMathProblem m) a
             then CorrectHit (playerDamage (difficultySettings m) (attack (hero m)) (defense (stats e)) True v) (name e)
             else WrongHit (playerDamage (difficultySettings m) (attack (hero m)) (defense (stats e)) False v))\<rparr>,
        m\<lparr>enemy := Some (e\<lparr>stats := st\<rparr>),
          battleMessageHistory := battleMessageHistory m @
            [if validateAnswer (currentMathProblem m) a
             then CorrectHit (playerDamage (difficultySettings m) (attack (hero m)) (defense (stats e)) True v) (name e)
             else WrongHit (playerDamage (difficultySettings m) (attack (hero m)) (defense (stats e)) False v)],
          turnSystem := turnSystem m @ [EndTurn],
          battleState := EnemyTurn,
          scheduledEnemyTurns := scheduledEnemyTurns m + 1\<rparr>)"
  using assms by (simp add: submitAnswer_def Let_def)

lemma submitAnswer_returns:
  assumes "battleState m = PlayerTurn" and "enemy m = Some e"
    and "0 < experienceToNextLevel (hero m)"
  shows "\<exists>r m'. submitAnswer validateAnswer applyDamage v a m = Returns (r, m')
           \<and> (battleState m' = Victory \<or> battleState m' = EnemyTurn)"
proof -
  obtain alive st where ad: "applyDamage (stats e) (playerDamage (difficultySettings m) (attack (hero m))
      (defense (stats e)) (validateAnswer (currentMathProblem m) a) v) = (alive, st)"
    by (cases "applyDamage (stats e) (playerDamage (difficultySettings m) (attack (hero m))
      (defense (stats e)) (validateAnswer (currentMathProblem m) a) v)") blast
  show ?thesis
  proof (cases alive)
    case True
    with ad have "applyDamage (stats e) (playerDamage (difficultySettings m) (attack (hero m))
      (defense (stats e)) (validateAnswer (currentMathProblem m) a) v) = (True, st)" by simp
    from submitAnswer_continue [where applyDamage = applyDamage and validateAnswer = validateAnswer
        and a = a and v = v, OF assms(1,2) this]
    show ?thesis by simp
  next
    case False
    from addExperience_returns [OF assms(3)]
    obtain lu h where "addExperience
        \<lfloor>jsMul (of_int (level st * 10)) (experienceMultiplier (difficultySettings m))\<rfloor> (hero m)
           = Some (lu, h)" by blast
    moreover from False ad have "applyDamage (stats e) (playerDamage (difficultySettings m) (attack (hero m))
      (defense (stats e)) (validateAnswer (currentMathProblem m) a) v) = (False, st)" by simp
    ultimately show ?thesis
      using submitAnswer_victory [where applyDamage = applyDamage and validateAnswer = validateAnswer
        and a = a and v = v and st = st, OF assms(1,2)] by simp
  qed
qed

lemma enemyTurn_returns:
  assumes "battleState m = EnemyTurn" and "enemy m = Some e"
  shows "\<exists>m'. enemyTurn applyDamage v p m = Returns m'
           \<and> (battleState m' = Defeat \<or> battleState m' = PlayerTurn)"
  using assms by (simp add: enemyTurn_def Let_def split: prod.split)

lemma startBattle_state: "battleState (startBattle newEnemy p m) = PlayerTurn"
  by (simp add: startBattle_def Let_def)

subsection \<open>Calls outside their turn\<close>

text \<open>
  Claim C5. \<open>submitAnswer\<close> called while the state is not player-turn (waiting, enemy-turn,
  victory or defeat) returns \<open>{ success: false, message: 'Not your turn!' }\<close> and leaves the
  whole manager as it was: hero, enemy, log, state and everything else. \<open>enemyTurn\<close> called
  while the state is not enemy-turn returns at once, with no value, and leaves the whole
  manager as it was.
\<close>

theorem wrong_turn_is_noop:
  "(battleState m \<noteq> PlayerTurn \<longrightarrow>
      submitAnswer validateAnswer applyDamage v a m = Returns (notYourTurn, m))
   \<and> (battleState m \<noteq> EnemyTurn \<longrightarrow> enemyTurn applyDamage v p m = Returns m)
   \<and> success notYourTurn = False \<and> message notYourTurn = Some NotYourTurn"
  by (simp add: submitAnswer_def enemyTurn_def notYourTurn_def emptyResult_def)

theorem wrong_turn_is_noop_witness:
  "battleState (sampleBattle Victory 0) \<noteq> PlayerTurn
   \<and> battleState (sampleBattle Victory 0) \<noteq> EnemyTurn
   \<and> submitAnswer answerIsFour applyDamageByTakeDamage 3 ''4'' (sampleBattle Victory 0)
       = Returns (notYourTurn, sampleBattle Victory 0)
   \<and> enemyTurn applyDamageByTakeDamage 3 1 (sampleBattle Victory 0) = Returns (sampleBattle Victory 0)"
  using wrong_turn_is_noop [of "sampleBattle Victory 0" answerIsFour applyDamageByTakeDamage 3 "''4''" 1]
  by (simp add: sampleBattle_def)

subsection \<open>Damage of a wrong answer\<close>

lemma hard_miss:
  "submitAnswer answerIsFour AttackSystem_applyDamage 5 ''7'' hardBattle =
    Returns (emptyResult\<lparr>success := True, correct := Some False, damage := Some 2, enemyHP := Some 78,
               message := Some (WrongHit 2)\<rparr>,
             hardBattle\<lparr>enemy := Some ((slime 78)\<lparr>stats := (stats (slime 78))\<lparr>defense := 5\<rparr>\<rparr>),
                battleMessageHistory := [Appeared Hard ''Math Slime'', WrongHit 2],
                turnSystem := [TurnReset, StartTurnPlayer, EndTurn], battleState := EnemyTurn,
                scheduledEnemyTurns := 1\<rparr>)"
  by code_simp

text \<open>
  Claim C4. In player-turn state, with an enemy present and a hero whose level threshold
  is positive, a call of \<open>submitAnswer\<close> whose answer the validator rejects returns, and the
  damage \<open>D\<close> it applies to the enemy is the damage of the formula for a wrong answer (base
  halved, floored, at least 1), times \<open>playerDamageMultiplier\<close>, floored, then times
  \<open>wrongAnswerPenalty\<close>, floored again, and at least 1; the products are double products. \<open>D\<close>
  is what \<open>applyDamage\<close> receives for the enemy, what the log line of the hit shows, and,
  when the enemy survives, the \<open>damage\<close> of the result.
\<close>

theorem wrong_answer_damage:
  fixes m :: "'p BattleManager" and e :: Enemy and v :: int
  defines "D \<equiv> max 1 \<lfloor>jsMul (of_int \<lfloor>jsMul (of_int (calculateDamage (attack (hero m)) None
                                                      (defense (stats e)) False v))
                                         (playerDamageMultiplier (difficultySettings m))\<rfloor>)
                         (wrongAnswerPenalty (difficultySettings m))\<rfloor>"
  assumes "battleState m = PlayerTurn" and "enemy m = Some e"
    and "\<not> validateAnswer (currentMathProblem m) a"
    and "0 < experienceToNextLevel (hero m)"
  shows "\<exists>r m'. submitAnswer validateAnswer applyDamage v a m = Returns (r, m')
           \<and> enemy m' = Some (e\<lparr>stats := snd (applyDamage (stats e) D)\<rparr>)
           \<and> take (Suc (length (battleMessageHistory m))) (battleMessageHistory m')
               = battleMessageHistory m @ [WrongHit D]
           \<and> (fst (applyDamage (stats e) D) \<longrightarrow> damage r = Some D)
           \<and> 1 \<le> D
           \<and> calculateDamage (attack (hero m)) None (defense (stats e)) False v
               = max 1 \<lfloor>of_int (attack (hero m)) * 0.5 + of_int v
                          - of_int (defense (stats e)) * (0.5 :: rat)\<rfloor>"
proof -
  have pd: "playerDamage (difficultySettings m) (attack (hero m)) (defense (stats e))
              (validateAnswer (currentMathProblem m) a) v = D"
    using assms(4) by (simp add: wrong_damage D_def)
  have one: "1 \<le> D" by (simp add: D_def)
  have half: "calculateDamage (attack (hero m)) None (defense (stats e)) False v
               = max 1 \<lfloor>of_int (attack (hero m)) * 0.5 + of_int v
                          - of_int (defense (stats e)) * (0.5 :: rat)\<rfloor>"
    by (simp add: calculateDamage_def Let_def)
  obtain alive st where ad: "applyDamage (stats e) D = (alive, st)"
    by (cases "applyDamage (stats e) D") blast
  show ?thesis
  proof (cases alive)
    case True
    with ad pd have "applyDamage (stats e) (playerDamage (difficultySettings m) (attack (hero m))
      (defense (stats e)) (validateAnswer (currentMathProblem m) a) v) = (True, st)" by simp
    from submitAnswer_continue [where applyDamage = applyDamage and validateAnswer = validateAnswer
        and a = a and v = v, OF assms(2,3) this] pd ad assms(4) one half
    show ?thesis by simp
  next
    case False
    from addExperience_returns [OF assms(5)]
    obtain lu h where "addExperience
        \<lfloor>jsMul (of_int (level st * 10)) (experienceMultiplier (difficultySettings m))\<rfloor> (hero m)
           = Some (lu, h)" by blast
    moreover from False ad pd have "applyDamage (stats e) (playerDamage (difficultySettings m) (attack (hero m))
      (defense (stats e)) (validateAnswer (currentMathProblem m) a) v) = (False, st)" by simp
    ultimately show ?thesis
      using submitAnswer_victory [where applyDamage = applyDamage and validateAnswer = validateAnswer
        and a = a and v = v and st = st, OF assms(2,3)] pd ad assms(4) one half by simp
  qed
qed

theorem wrong_answer_damage_witness:
  "battleState hardBattle = PlayerTurn
   \<and> enemy hardBattle = Some ((slime 80)\<lparr>stats := (stats (slime 80))\<lparr>defense := 5\<rparr>\<rparr>)
   \<and> \<not> answerIsFour (currentMathProblem hardBattle) ''7''
   \<and> 0 < experienceToNextLevel (hero hardBattle)
   \<and> attack (hero hardBattle) = 20
   \<and> calculateDamage 20 None 5 False 5 = 12
   \<and> (\<exists>r m'. submitAnswer answerIsFour AttackSystem_applyDamage 5 ''7'' hardBattle = Returns (r, m')
          \<and> enemy m' = Some ((slime 78)\<lparr>stats := (stats (slime 78))\<lparr>defense := 5\<rparr>\<rparr>)
          \<and> damage r = Some 2
          \<and> battleMessageHistory m' = [Appeared Hard ''Math Slime'', WrongHit 2])"
proof -
  have h: "battleState hardBattle = PlayerTurn"
    "enemy hardBattle = Some ((slime 80)\<lparr>stats := (stats (slime 80))\<lparr>defense := 5\<rparr>\<rparr>)"
    "\<not> answerIsFour (currentMathProblem hardBattle) ''7''"
    "0 < experienceToNextLevel (hero hardBattle)"
    by (simp_all add: hardBattle_def sampleBattle_def defaultStats_def answerIsFour_def)
  have at: "attack (hero hardBattle) = 20" by (simp add: hardBattle_def)
  have c: "calculateDamage 20 None 5 False 5 = 12" by code_simp
  from wrong_answer_damage [where applyDamage = AttackSystem_applyDamage and validateAnswer = answerIsFour
      and a = "''7''" and v = 5, OF h]
  obtain r m' where rm: "submitAnswer answerIsFour AttackSystem_applyDamage 5 ''7'' hardBattle
                 = Returns (r, m')" by blast
  from rm [unfolded hard_miss]
  have "enemy m' = Some ((slime 78)\<lparr>stats := (stats (slime 78))\<lparr>defense := 5\<rparr>\<rparr>)
          \<and> damage r = Some 2
          \<and> battleMessageHistory m' = [Appeared Hard ''Math Slime'', WrongHit 2]"
    by (auto simp add: emptyResult_def)
  with rm h at c show ?thesis by blast
qed

subsection \<open>Victory\<close>

lemma last_hit:
  "submitAnswer answerIsFour AttackSystem_applyDamage 3 ''4'' lastHitBattle =
    Returns (emptyResult\<lparr>success := True, victory := Some True, expGained := Some 12,
               goldGained := Some 18, leveledUp := Some True\<rparr>,
             lastHitBattle\<lparr>enemy := Some (slime 0),
                battleMessageHistory :=
                  [Appeared Medium ''Math Slime'', CorrectHit 11 ''Math Slime'', VictoryLine 12 18],
                battleState := Victory,
                hero := defaultStats\<lparr>level := 2, experience := 7, maxHP := 480, currentHP := 480,
                          attack := 11, defense := 5, experienceToNextLevel := 150, gold := 18\<rparr>,
                saved := [defaultStats\<lparr>level := 2, experience := 7, maxHP := 480, currentHP := 480,
                            attack := 11, defense := 5, experienceToNextLevel := 150, gold := 18\<rparr>]\<rparr>)"
  by code_simp

text \<open>
  Claim C7. In player-turn state, when the hit of \<open>submitAnswer\<close> leaves the enemy with 0
  health (and \<open>applyDamage\<close> reports whether the target is alive as \<open>currentHP > 0\<close>), the call
  returns with the state victory. Let \<open>expEarned = floor(enemy.level * 10 *
  experienceMultiplier)\<close> and \<open>goldEarned = floor(enemy.level * 15 * experienceMultiplier)\<close>, the
  products being double products. The hero first receives the experience:
  \<open>addExperience(expEarned)\<close> adds \<open>expEarned\<close> to the hero's experience and runs some number
  \<open>n\<close> of level-up rounds, none exactly when the experience with \<open>expEarned\<close> added is below the
  threshold; the hero's level grows by \<open>n\<close> and the experience ends below the threshold. Then
  \<open>goldEarned\<close> is added to the hero's gold. \<open>save()\<close> is called exactly once, on the hero with
  experience and gold applied; no enemy turn is scheduled; the result carries \<open>victory =
  true\<close>, both rewards and \<open>leveledUp\<close>, which is whether \<open>n > 0\<close>. When no round runs, the hero
  afterwards is the hero before with \<open>expEarned\<close> more experience and \<open>goldEarned\<close> more gold.
  The hero's level threshold is assumed positive, so that \<open>addExperience\<close> returns.
\<close>

theorem victory_rewards:
  fixes m :: "'p BattleManager" and st :: CharacterStats
  defines "expEarned \<equiv> \<lfloor>jsMul (of_int (level st * 10)) (experienceMultiplier (difficultySettings m))\<rfloor>"
    and "goldEarned \<equiv> \<lfloor>jsMul (of_int (level st * 15)) (experienceMultiplier (difficultySettings m))\<rfloor>"
  assumes "battleState m = PlayerTurn" and "enemy m = Some e"
    and "0 < experienceToNextLevel (hero m)"
    and "applyDamage (stats e) (playerDamage (difficultySettings m) (attack (hero m)) (defense (stats e))
           (validateAnswer (currentMathProblem m) a) v) = (alive, st)"
    and "alive \<longleftrightarrow> 0 < currentHP st"
    and "currentHP st = 0"
  shows "\<exists>n r m'.
           addExperience expEarned (hero m)
             = Some (0 < n, (levelUpOnce ^^ n) ((hero m)\<lparr>experience := experience (hero m) + expEarned\<rparr>))
         \<and> (n = 0 \<longleftrightarrow> experience (hero m) + expEarned < experienceToNextLevel (hero m))
         \<and> submitAnswer validateAnswer applyDamage v a m = Returns (r, m')
         \<and> battleState m' = Victory
         \<and> enemy m' = Some (e\<lparr>stats := st\<rparr>)
         \<and> hero m' = ((levelUpOnce ^^ n) ((hero m)\<lparr>experience := experience (hero m) + expEarned\<rparr>))
                        \<lparr>gold := gold (hero m) + goldEarned\<rparr>
         \<and> level (hero m') = level (hero m) + int n
         \<and> experience (hero m') < experienceToNextLevel (hero m')
         \<and> gold (hero m') = gold (hero m) + goldEarned
         \<and> (n = 0 \<longrightarrow> hero m' = (hero m)\<lparr>experience := experience (hero m) + expEarned,
                                         gold := gold (hero m) + goldEarned\<rparr>)
         \<and> saved m' = saved m @ [hero m']
         \<and> scheduledEnemyTurns m' = scheduledEnemyTurns m
         \<and> last (battleMessageHistory m') = VictoryLine expEarned goldEarned
         \<and> success r = True \<and> victory r = Some True
         \<and> expGained r = Some expEarned \<and> goldGained r = Some goldEarned
         \<and> leveledUp r = Some (0 < n)"
proof -
  let ?h0 = "(hero m)\<lparr>experience := experience (hero m) + expEarned\<rparr>"
  from assms(7,8) have dead: "alive = False" by simp
  from addExperience_runs [OF assms(5), of expEarned]
  obtain n where ae: "addExperience expEarned (hero m) = Some (0 < n, (levelUpOnce ^^ n) ?h0)"
    and b: "experience ((levelUpOnce ^^ n) ?h0) < experienceToNextLevel ((levelUpOnce ^^ n) ?h0)"
    and l: "level ((levelUpOnce ^^ n) ?h0) = level (hero m) + int n"
    and z: "n = 0 \<longleftrightarrow> experience (hero m) + expEarned < experienceToNextLevel (hero m)"
    by (elim exE conjE)
  have g: "gold ((levelUpOnce ^^ n) ?h0) = gold (hero m)" by (simp add: gold_funpow)
  note sv = submitAnswer_victory [where applyDamage = applyDamage and validateAnswer = validateAnswer
        and a = a and v = v and st = st, OF assms(3,4) assms(6) [unfolded dead] ae [unfolded expEarned_def]]
  let ?h = "((levelUpOnce ^^ n) ?h0)\<lparr>gold := gold (hero m) + goldEarned\<rparr>"
  let ?r = "emptyResult\<lparr>success := True, victory := Some True, expGained := Some expEarned,
              goldGained := Some goldEarned, leveledUp := Some (0 < n)\<rparr>"
  let ?m = "m\<lparr>enemy := Some (e\<lparr>stats := st\<rparr>),
          battleMessageHistory := battleMessageHistory m @
            [if validateAnswer (currentMathProblem m) a
             then CorrectHit (playerDamage (difficultySettings m) (attack (hero m)) (defense (stats e)) True v) (name e)
             else WrongHit (playerDamage (difficultySettings m) (attack (hero m)) (defense (stats e)) False v),
             VictoryLine expEarned goldEarned],
          battleState := Victory, hero := ?h, saved := saved m @ [?h]\<rparr>"
  have ret: "submitAnswer validateAnswer applyDamage v a m = Returns (?r, ?m)"
    using sv g by (simp add: expEarned_def goldEarned_def)
  have zero: "n = 0 \<longrightarrow> hero ?m = (hero m)\<lparr>experience := experience (hero m) + expEarned,
                                         gold := gold (hero m) + goldEarned\<rparr>"
    by simp
  have rest: "battleState ?m = Victory" "enemy ?m = Some (e\<lparr>stats := st\<rparr>)" "hero ?m = ?h"
    "level (hero ?m) = level (hero m) + int n"
    "experience (hero ?m) < experienceToNextLevel (hero ?m)"
    "gold (hero ?m) = gold (hero m) + goldEarned"
    "saved ?m = saved m @ [hero ?m]"
    "scheduledEnemyTurns ?m = scheduledEnemyTurns m"
    "last (battleMessageHistory ?m) = VictoryLine expEarned goldEarned"
    "success ?r = True" "victory ?r = Some True"
    "expGained ?r = Some expEarned" "goldGained ?r = Some goldEarned"
    "leveledUp ?r = Some (0 < n)"
    using b l by (simp_all add: emptyResult_def)
  show ?thesis
    apply (rule exI [of _ n], rule exI [of _ ?r], rule exI [of _ ?m])
    apply (intro conjI)
                     apply (rule ae)
                    apply (rule z)
                   apply (rule ret)
                  apply (rule rest(1))
                 apply (rule rest(2))
                apply (rule rest(3))
               apply (rule rest(4))
              apply (rule rest(5))
             apply (rule rest(6))
            apply (rule zero)
           apply (rule rest(7))
          apply (rule rest(8))
         apply (rule rest(9))
        apply (rule rest(10))
       apply (rule rest(11))
      apply (rule rest(12))
     apply (rule rest(13))
    apply (rule rest(14))
    done
qed

theorem victory_rewards_witness:
  "battleState lastHitBattle = PlayerTurn
   \<and> enemy lastHitBattle = Some (slime 5)
   \<and> 0 < experienceToNextLevel (hero lastHitBattle)
   \<and> hero lastHitBattle = defaultStats\<lparr>experience := 95\<rparr>
   \<and> AttackSystem_applyDamage (stats (slime 5)) 11 = (False, stats (slime 0))
   \<and> currentHP (stats (slime 0)) = 0
   \<and> (\<exists>n r m'.
         addExperience 12 (defaultStats\<lparr>experience := 95\<rparr>)
           = Some (0 < n, (levelUpOnce ^^ n) (defaultStats\<lparr>experience := 107\<rparr>))
       \<and> n \<noteq> 0
       \<and> submitAnswer answerIsFour AttackSystem_applyDamage 3 ''4'' lastHitBattle = Returns (r, m')
       \<and> battleState m' = Victory
       \<and> hero m' = defaultStats\<lparr>level := 2, experience := 7, maxHP := 480, currentHP := 480,
                       attack := 11, defense := 5, experienceToNextLevel := 150, gold := 18\<rparr>
       \<and> hero m' = ((levelUpOnce ^^ n) (defaultStats\<lparr>experience := 107\<rparr>))\<lparr>gold := 18\<rparr>
       \<and> level (hero m') = 1 + int n
       \<and> saved m' = [hero m']
       \<and> expGained r = Some 12 \<and> goldGained r = Some 18 \<and> leveledUp r = Some True)"
proof -
  have h1: "battleState lastHitBattle = PlayerTurn" by (simp add: lastHitBattle_def sampleBattle_def)
  have h2: "enemy lastHitBattle = Some (slime 5)" by (simp add: lastHitBattle_def sampleBattle_def)
  have h3: "0 < experienceToNextLevel (hero lastHitBattle)"
    by (simp add: lastHitBattle_def defaultStats_def)
  have hh: "hero lastHitBattle = defaultStats\<lparr>experience := 95\<rparr>" "saved lastHitBattle = []"
    by (simp_all add: lastHitBattle_def sampleBattle_def)
  have pd: "playerDamage (difficultySettings lastHitBattle) (attack (hero lastHitBattle))
      (defense (stats (slime 5))) (answerIsFour (currentMathProblem lastHitBattle) ''4'') 3 = 11"
    by code_simp
  have ad: "AttackSystem_applyDamage (stats (slime 5)) 11 = (False, stats (slime 0))" by code_simp
  have h5: "False \<longleftrightarrow> 0 < currentHP (stats (slime 0))" by (simp add: slime_def)
  have h6: "currentHP (stats (slime 0)) = 0" by (simp add: slime_def)
  have e: "\<lfloor>jsMul (of_int (level (stats (slime 0)) * 10)) (experienceMultiplier (difficultySettings lastHitBattle))\<rfloor> = 12"
    by code_simp
  have g: "\<lfloor>jsMul (of_int (level (stats (slime 0)) * 15)) (experienceMultiplier (difficultySettings lastHitBattle))\<rfloor> = 18"
    by code_simp
  have x: "experience (defaultStats\<lparr>experience := 95\<rparr>) + 12 = 107"
    "gold (defaultStats\<lparr>experience := 95\<rparr>) + 18 = 18"
    "level (defaultStats\<lparr>experience := 95\<rparr>) = 1"
    "experienceToNextLevel (defaultStats\<lparr>experience := 95\<rparr>) = 100"
    by (simp_all add: defaultStats_def)
  have upd: "defaultStats\<lparr>experience := 95, experience := 107\<rparr> = defaultStats\<lparr>experience := 107\<rparr>"
    by simp
  from victory_rewards [where applyDamage = AttackSystem_applyDamage and validateAnswer = answerIsFour
      and a = "''4''" and v = 3, OF h1 h2 h3 ad [folded pd] h5 h6]
  obtain n r m' where
    a: "addExperience 12 (defaultStats\<lparr>experience := 95\<rparr>)
           = Some (0 < n, (levelUpOnce ^^ n) (defaultStats\<lparr>experience := 107\<rparr>))"
    and z: "n = 0 \<longleftrightarrow> (107 :: int) < 100"
    and rm: "submitAnswer answerIsFour AttackSystem_applyDamage 3 ''4'' lastHitBattle = Returns (r, m')"
    and hm: "hero m' = ((levelUpOnce ^^ n) (defaultStats\<lparr>experience := 107\<rparr>))\<lparr>gold := 18\<rparr>"
    and lv: "level (hero m') = 1 + int n"
    and sv: "saved m' = [hero m']"
    unfolding e g hh x upd append_Nil by (elim exE conjE)
  from z have nz: "n \<noteq> 0" by simp
  from rm [unfolded last_hit]
  have c: "battleState m' = Victory"
    "hero m' = defaultStats\<lparr>level := 2, experience := 7, maxHP := 480, currentHP := 480,
                       attack := 11, defense := 5, experienceToNextLevel := 150, gold := 18\<rparr>"
    "expGained r = Some 12" "goldGained r = Some 18" "leveledUp r = Some True"
    by (auto simp add: emptyResult_def)
  have "\<exists>n r m'.
         addExperience 12 (defaultStats\<lparr>experience := 95\<rparr>)
           = Some (0 < n, (levelUpOnce ^^ n) (defaultStats\<lparr>experience := 107\<rparr>))
       \<and> n \<noteq> 0
       \<and> submitAnswer answerIsFour AttackSystem_applyDamage 3 ''4'' lastHitBattle = Returns (r, m')
       \<and> battleState m' = Victory
       \<and> hero m' = defaultStats\<lparr>level := 2, experience := 7, maxHP := 480, currentHP := 480,
                       attack := 11, defense := 5, experienceToNextLevel := 150, gold := 18\<rparr>
       \<and> hero m' = ((levelUpOnce ^^ n) (defaultStats\<lparr>experience := 107\<rparr>))\<lparr>gold := 18\<rparr>
       \<and> level (hero m') = 1 + int n
       \<and> saved m' = [hero m']
       \<and> expGained r = Some 12 \<and> goldGained r = Some 18 \<and> leveledUp r = Some True"
    using a nz rm c hm lv sv by (intro exI [of _ n] exI [of _ r] exI [of _ m'] conjI)
  with h1 h2 h3 hh(1) ad h6 show ?thesis by (intro conjI)
qed

subsection \<open>The object returned by a player turn\<close>

lemma sample_hit:
  "submitAnswer answerIsFour applyDamageByTakeDamage 3 ''4'' (sampleBattle PlayerTurn 80) =
    Returns (emptyResult\<lparr>success := True, correct := Some True, damage := Some 11, enemyHP := Some 69,
               message := Some (CorrectHit 11 ''Math Slime'')\<rparr>,
             (sampleBattle EnemyTurn 69)\<lparr>battleMessageHistory :=
                  [Appeared Medium ''Math Slime'', CorrectHit 11 ''Math Slime''],
                turnSystem := [TurnReset, StartTurnPlayer, EndTurn], scheduledEnemyTurns := 1\<rparr>)"
  by code_simp

text \<open>
  Claim C8, as the code has it. Every call of \<open>submitAnswer\<close> in player-turn state (enemy
  present, hero's level threshold positive) returns an object with \<open>success = true\<close>. When
  the battle goes on, the object carries \<open>correct\<close>, \<open>damage\<close>, \<open>enemyHP\<close> (the enemy's health
  after the hit) and \<open>message\<close>, and has no \<open>victory\<close>, \<open>expGained\<close>, \<open>goldGained\<close> or \<open>leveledUp\<close>
  key. When the enemy is defeated, the object carries \<open>victory = true\<close>, \<open>expGained\<close>,
  \<open>goldGained\<close> and \<open>leveledUp\<close>.
\<close>

theorem submitAnswer_result_shape:
  fixes m :: "'p BattleManager"
  assumes "battleState m = PlayerTurn" and "enemy m = Some e"
    and "0 < experienceToNextLevel (hero m)"
  shows "\<exists>r m'. submitAnswer validateAnswer applyDamage v a m = Returns (r, m')
           \<and> success r = True
           \<and> (battleState m' = Victory
                \<and> victory r = Some True
                \<and> (\<exists>x. expGained r = Some x) \<and> (\<exists>g. goldGained r = Some g)
                \<and> (\<exists>l. leveledUp r = Some l)
              \<or> battleState m' = EnemyTurn
                \<and> correct r = Some (validateAnswer (currentMathProblem m) a)
                \<and> damage r = Some (playerDamage (difficultySettings m) (attack (hero m))
                                      (defense (stats e)) (validateAnswer (currentMathProblem m) a) v)
                \<and> enemyHP r = map_option (currentHP \<circ> stats) (enemy m')
                \<and> (\<exists>msg. message r = Some msg)
                \<and> victory r = None \<and> expGained r = None \<and> goldGained r = None
                \<and> leveledUp r = None)"
proof -
  obtain alive st where ad: "applyDamage (stats e) (playerDamage (difficultySettings m) (attack (hero m))
      (defense (stats e)) (validateAnswer (currentMathProblem m) a) v) = (alive, st)"
    by (cases "applyDamage (stats e) (playerDamage (difficultySettings m) (attack (hero m))
      (defense (stats e)) (validateAnswer (currentMathProblem m) a) v)") blast
  show ?thesis
  proof (cases alive)
    case True
    with ad have "applyDamage (stats e) (playerDamage (difficultySettings m) (attack (hero m))
      (defense (stats e)) (validateAnswer (currentMathProblem m) a) v) = (True, st)" by simp
    from submitAnswer_continue [where applyDamage = applyDamage and validateAnswer = validateAnswer
        and a = a and v = v, OF assms(1,2) this]
    show ?thesis by (simp add: emptyResult_def)
  next
    case False
    from addExperience_returns [OF assms(3)]
    obtain lu h where "addExperience
        \<lfloor>jsMul (of_int (level st * 10)) (experienceMultiplier (difficultySettings m))\<rfloor> (hero m)
           = Some (lu, h)" by blast
    moreover from False ad have "applyDamage (stats e) (playerDamage (difficultySettings m) (attack (hero m))
      (defense (stats e)) (validateAnswer (currentMathProblem m) a) v) = (False, st)" by simp
    ultimately show ?thesis
      using submitAnswer_victory [where applyDamage = applyDamage and validateAnswer = validateAnswer
        and a = a and v = v and st = st, OF assms(1,2)] by (simp add: emptyResult_def)
  qed
qed

theorem submitAnswer_result_shape_witness:
  "battleState (sampleBattle PlayerTurn 80) = PlayerTurn
   \<and> enemy (sampleBattle PlayerTurn 80) = Some (slime 80)
   \<and> 0 < experienceToNextLevel (hero (sampleBattle PlayerTurn 80))
   \<and> (\<exists>r m'. submitAnswer answerIsFour applyDamageByTakeDamage 3 ''4'' (sampleBattle PlayerTurn 80)
                = Returns (r, m')
          \<and> success r = True \<and> battleState m' = EnemyTurn \<and> correct r = Some True
          \<and> damage r = Some 11 \<and> enemyHP r = Some 69)"
proof -
  have h1: "battleState (sampleBattle PlayerTurn 80) = PlayerTurn" by (simp add: sampleBattle_def)
  have h2: "enemy (sampleBattle PlayerTurn 80) = Some (slime 80)" by (simp add: sampleBattle_def)
  have h3: "0 < experienceToNextLevel (hero (sampleBattle PlayerTurn 80))"
    by (simp add: sampleBattle_def defaultStats_def)
  from submitAnswer_result_shape [where applyDamage = applyDamageByTakeDamage
      and validateAnswer = answerIsFour and a = "''4''" and v = 3, OF h1 h2 h3]
  obtain r m' where rm: "submitAnswer answerIsFour applyDamageByTakeDamage 3 ''4'' (sampleBattle PlayerTurn 80)
                = Returns (r, m')" and s: "success r = True"
    by blast
  from rm [unfolded sample_hit] s
  have "success r = True \<and> battleState m' = EnemyTurn \<and> correct r = Some True
          \<and> damage r = Some 11 \<and> enemyHP r = Some 69"
    by (auto simp add: emptyResult_def sampleBattle_def)
  with rm h1 h2 h3 show ?thesis by blast
qed

text \<open>
  Claim C8 as stated fails: a correct answer that leaves the enemy alive (80 health, 11
  damage) returns an object without the keys \<open>victory\<close> and \<open>expGained\<close>; in particular it
  does not carry \<open>victory = false\<close>.
\<close>

theorem submitAnswer_result_counterexample:
  "battleState (sampleBattle PlayerTurn 80) = PlayerTurn
   \<and> map_outcome (battleState \<circ> snd)
        (submitAnswer answerIsFour applyDamageByTakeDamage 3 ''4'' (sampleBattle PlayerTurn 80))
       = Returns EnemyTurn
   \<and> map_outcome (victory \<circ> fst)
        (submitAnswer answerIsFour applyDamageByTakeDamage 3 ''4'' (sampleBattle PlayerTurn 80))
       = Returns None
   \<and> map_outcome (victory \<circ> fst)
        (submitAnswer answerIsFour applyDamageByTakeDamage 3 ''4'' (sampleBattle PlayerTurn 80))
       \<noteq> Returns (Some False)
   \<and> map_outcome (expGained \<circ> fst)
        (submitAnswer answerIsFour applyDamageByTakeDamage 3 ''4'' (sampleBattle PlayerTurn 80))
       = Returns None"
  unfolding sample_hit by (simp add: emptyResult_def sampleBattle_def)

subsection \<open>Moves of the battle state\<close>

text \<open>
  Claim C6, as the code has it. \<open>startBattle\<close> has no guard: from every state, the terminal
  ones included, it moves to player-turn. \<open>submitAnswer\<close> in player-turn (enemy present,
  hero's level threshold positive) returns in victory or enemy-turn; \<open>enemyTurn\<close> in
  enemy-turn returns in defeat or player-turn. Outside player-turn \<open>submitAnswer\<close> changes
  nothing, outside enemy-turn \<open>enemyTurn\<close> changes nothing; so once the state is victory or
  defeat, neither of the two ever changes it again.
\<close>

theorem battle_state_moves:
  fixes m :: "'p BattleManager"
  shows "battleState (startBattle newEnemy p m) = PlayerTurn
   \<and> (battleState m = PlayerTurn \<and> enemy m = Some e \<and> 0 < experienceToNextLevel (hero m) \<longrightarrow>
        (\<exists>r m'. submitAnswer validateAnswer applyDamage v a m = Returns (r, m')
           \<and> (battleState m' = Victory \<or> battleState m' = EnemyTurn)))
   \<and> (battleState m = EnemyTurn \<and> enemy m = Some e \<longrightarrow>
        (\<exists>m'. enemyTurn applyDamage v p m = Returns m'
           \<and> (battleState m' = Defeat \<or> battleState m' = PlayerTurn)))
   \<and> (battleState m \<noteq> PlayerTurn \<longrightarrow>
        submitAnswer validateAnswer applyDamage v a m = Returns (notYourTurn, m))
   \<and> (battleState m \<noteq> EnemyTurn \<longrightarrow> enemyTurn applyDamage v p m = Returns m)
   \<and> (battleState m = Victory \<or> battleState m = Defeat \<longrightarrow>
        submitAnswer validateAnswer applyDamage v a m = Returns (notYourTurn, m)
        \<and> enemyTurn applyDamage v p m = Returns m)"
proof (intro conjI impI)
  show "battleState (startBattle newEnemy p m) = PlayerTurn" by (rule startBattle_state)
next
  assume "battleState m = PlayerTurn \<and> enemy m = Some e \<and> 0 < experienceToNextLevel (hero m)"
  then show "\<exists>r m'. submitAnswer validateAnswer applyDamage v a m = Returns (r, m')
           \<and> (battleState m' = Victory \<or> battleState m' = EnemyTurn)"
    using submitAnswer_returns [where applyDamage = applyDamage and validateAnswer = validateAnswer
        and a = a and v = v and m = m and e = e] by blast
next
  assume "battleState m = EnemyTurn \<and> enemy m = Some e"
  then show "\<exists>m'. enemyTurn applyDamage v p m = Returns m'
           \<and> (battleState m' = Defeat \<or> battleState m' = PlayerTurn)"
    using enemyTurn_returns [where applyDamage = applyDamage and v = v and p = p and m = m and e = e]
    by blast
next
  assume "battleState m \<noteq> PlayerTurn"
  then show "submitAnswer validateAnswer applyDamage v a m = Returns (notYourTurn, m)"
    by (simp add: submitAnswer_def)
next
  assume "battleState m \<noteq> EnemyTurn"
  then show "enemyTurn applyDamage v p m = Returns m" by (simp add: enemyTurn_def)
next
  assume "battleState m = Victory \<or> battleState m = Defeat"
  then show "submitAnswer validateAnswer applyDamage v a m = Returns (notYourTurn, m)"
    by (auto simp add: submitAnswer_def)
next
  assume "battleState m = Victory \<or> battleState m = Defeat"
  then show "enemyTurn applyDamage v p m = Returns m" by (auto simp add: enemyTurn_def)
qed

theorem battle_state_moves_witness:
  "battleState (sampleBattle PlayerTurn 80) = PlayerTurn
   \<and> enemy (sampleBattle PlayerTurn 80) = Some (slime 80)
   \<and> 0 < experienceToNextLevel (hero (sampleBattle PlayerTurn 80))
   \<and> (\<exists>r m'. submitAnswer answerIsFour applyDamageByTakeDamage 3 ''4'' (sampleBattle PlayerTurn 80)
                 = Returns (r, m')
          \<and> (battleState m' = Victory \<or> battleState m' = EnemyTurn))
   \<and> battleState (sampleBattle EnemyTurn 69) = EnemyTurn
   \<and> enemy (sampleBattle EnemyTurn 69) = Some (slime 69)
   \<and> (\<exists>m'. enemyTurn applyDamageByTakeDamage 3 1 (sampleBattle EnemyTurn 69) = Returns m'
          \<and> (battleState m' = Defeat \<or> battleState m' = PlayerTurn))
   \<and> battleState (sampleBattle Defeat 69) = Defeat
   \<and> submitAnswer answerIsFour applyDamageByTakeDamage 3 ''4'' (sampleBattle Defeat 69)
       = Returns (notYourTurn, sampleBattle Defeat 69)
   \<and> enemyTurn applyDamageByTakeDamage 3 1 (sampleBattle Defeat 69) = Returns (sampleBattle Defeat 69)"
proof -
  have p: "battleState (sampleBattle PlayerTurn 80) = PlayerTurn"
    "enemy (sampleBattle PlayerTurn 80) = Some (slime 80)"
    "0 < experienceToNextLevel (hero (sampleBattle PlayerTurn 80))"
    by (simp_all add: sampleBattle_def defaultStats_def)
  have e: "battleState (sampleBattle EnemyTurn 69) = EnemyTurn"
    "enemy (sampleBattle EnemyTurn 69) = Some (slime 69)"
    by (simp_all add: sampleBattle_def)
  have d: "battleState (sampleBattle Defeat 69) = Defeat"
    by (simp add: sampleBattle_def)
  note t1 = battle_state_moves [where m = "sampleBattle PlayerTurn 80" and e = "slime 80"
      and validateAnswer = answerIsFour and applyDamage = applyDamageByTakeDamage and v = 3
      and a = "''4''" and p = 1 and newEnemy = plainEnemy]
  note t2 = battle_state_moves [where m = "sampleBattle EnemyTurn 69" and e = "slime 69"
      and validateAnswer = answerIsFour and applyDamage = applyDamageByTakeDamage and v = 3
      and a = "''4''" and p = 1 and newEnemy = plainEnemy]
  note t3 = battle_state_moves [where m = "sampleBattle Defeat 69" and e = "slime 69"
      and validateAnswer = answerIsFour and applyDamage = applyDamageByTakeDamage and v = 3
      and a = "''4''" and p = 1 and newEnemy = plainEnemy]
  from t1 p have a: "\<exists>r m'. submitAnswer answerIsFour applyDamageByTakeDamage 3 ''4'' (sampleBattle PlayerTurn 80)
                 = Returns (r, m')
          \<and> (battleState m' = Victory \<or> battleState m' = EnemyTurn)" by blast
  from t2 e have b: "\<exists>m'. enemyTurn applyDamageByTakeDamage 3 1 (sampleBattle EnemyTurn 69) = Returns m'
          \<and> (battleState m' = Defeat \<or> battleState m' = PlayerTurn)" by blast
  from t3 d have c: "submitAnswer answerIsFour applyDamageByTakeDamage 3 ''4'' (sampleBattle Defeat 69)
       = Returns (notYourTurn, sampleBattle Defeat 69)
     \<and> enemyTurn applyDamageByTakeDamage 3 1 (sampleBattle Defeat 69) = Returns (sampleBattle Defeat 69)"
    by blast
  from p e d a b c show ?thesis by (intro conjI) blast+
qed

text \<open>
  Claim C6 as stated fails where it says that no operation changes a terminal state:
  \<open>startBattle\<close> on a manager in state victory (or defeat) leaves it in player-turn.
\<close>

theorem battle_state_counterexample:
  "battleState (sampleBattle Victory 0) = Victory
   \<and> battleState (startBattle plainEnemy 1 (sampleBattle Victory 0)) = PlayerTurn
   \<and> battleState (startBattle plainEnemy 1 (sampleBattle Victory 0)) \<noteq> battleState (sampleBattle Victory 0)
   \<and> battleState (sampleBattle Defeat 0) = Defeat
   \<and> battleState (startBattle plainEnemy 1 (sampleBattle Defeat 0)) = PlayerTurn"
  by (simp add: startBattle_state sampleBattle_def)


end
